theory Spec2Isabelle
  imports Complex_Main
begin

section \<open>Govardovskii visual pigment template with A1/A2 chromophore mixing\<close>

text \<open>
  The program is one Python module, \<^verbatim>\<open>govardovskii.py\<close>, with two functions:
  \<^verbatim>\<open>govardovskii_template\<close>, a closed-form elementwise transform of a numpy array of
  wavelengths, and \<^verbatim>\<open>plot_visual_pigments\<close>, which calls it once per pigment and adds
  the curve to a matplotlib figure.

  Arguments. \<open>lambda_max\<close> and \<open>A1_proportion\<close> are Python floats and the wavelength
  samples are finite doubles; all three are of type \<open>real\<close> here. The wavelength array
  is one-dimensional, a list.

  Numbers. The source computes in IEEE double precision. The embedding keeps the
  special values of that arithmetic and drops its rounding: a value is a real number or
  one of \<open>+inf\<close>, \<open>-inf\<close>, \<open>nan\<close>, a finite result is the exact real result, and zero
  carries no sign, so a positive number divided by zero is \<open>+inf\<close>. numpy, with its
  error handling at the default, does not raise on a division by zero or on an invalid
  operation: it warns and stores \<open>inf\<close> or \<open>nan\<close>, which is what \<open>np_div\<close> and the
  other operations below do.

  Range. Two effects of the finite range of a double change the kind of a result, and
  both are kept. A Python float power whose result leaves the range raises
  \<^verbatim>\<open>OverflowError\<close> (\<open>float_square\<close>); the source has two, both on
  \<open>lambda_max\<close>. And \<^verbatim>\<open>np.exp\<close> of a scalar beyond the range is \<open>inf\<close>
  (\<open>scalar_exp\<close>): the A2 parameters \<open>a2\<close> and \<open>A2_peak\<close> grow exponentially with
  \<open>lambda_max\<close> and become infinite, which turns the A2 alpha band into \<open>nan\<close> at a
  sample where \<open>x\<close> is infinite too. Inside the arrays every operation stays exact:
  there an overflowed exponential sits in the denominator of an alpha band and an
  underflowed one in a Gaussian, so each moves its band by less than the smallest
  normal double, and both are treated as rounding is.
\<close>

subsection \<open>Array elements and their arithmetic\<close>

datatype npfloat = Fin real | PInf | NInf | NaN

datatype error = ValueError | OverflowError

fun np_neg :: "npfloat \<Rightarrow> npfloat" where
  "np_neg (Fin a) = Fin (- a)"
| "np_neg PInf = NInf"
| "np_neg NInf = PInf"
| "np_neg NaN = NaN"

fun np_add :: "npfloat \<Rightarrow> npfloat \<Rightarrow> npfloat" where
  "np_add NaN _ = NaN"
| "np_add _ NaN = NaN"
| "np_add PInf NInf = NaN"
| "np_add NInf PInf = NaN"
| "np_add PInf _ = PInf"
| "np_add _ PInf = PInf"
| "np_add NInf _ = NInf"
| "np_add _ NInf = NInf"
| "np_add (Fin a) (Fin b) = Fin (a + b)"

definition np_sub :: "npfloat \<Rightarrow> npfloat \<Rightarrow> npfloat" where
  "np_sub a b = np_add a (np_neg b)"

text \<open>The sign of an infinite product; a zero times an infinity is invalid.\<close>

definition inf_times :: "bool \<Rightarrow> real \<Rightarrow> npfloat" where
  "inf_times positive a =
     (if a = 0 then NaN else if (0 < a) = positive then PInf else NInf)"

fun np_mul :: "npfloat \<Rightarrow> npfloat \<Rightarrow> npfloat" where
  "np_mul NaN _ = NaN"
| "np_mul _ NaN = NaN"
| "np_mul (Fin a) (Fin b) = Fin (a * b)"
| "np_mul (Fin a) PInf = inf_times True a"
| "np_mul (Fin a) NInf = inf_times False a"
| "np_mul PInf (Fin b) = inf_times True b"
| "np_mul NInf (Fin b) = inf_times False b"
| "np_mul PInf PInf = PInf"
| "np_mul NInf NInf = PInf"
| "np_mul PInf NInf = NInf"
| "np_mul NInf PInf = NInf"

text \<open>
  Division never raises. A finite number over zero is an infinity of the numerator's
  sign, zero over zero and infinity over infinity are \<open>nan\<close>, a finite number over an
  infinity is zero.
\<close>

fun np_div :: "npfloat \<Rightarrow> npfloat \<Rightarrow> npfloat" where
  "np_div NaN _ = NaN"
| "np_div _ NaN = NaN"
| "np_div (Fin a) (Fin b) =
     (if b \<noteq> 0 then Fin (a / b)
      else if a = 0 then NaN else if 0 < a then PInf else NInf)"
| "np_div (Fin a) PInf = Fin 0"
| "np_div (Fin a) NInf = Fin 0"
| "np_div PInf (Fin b) = (if 0 \<le> b then PInf else NInf)"
| "np_div NInf (Fin b) = (if 0 \<le> b then NInf else PInf)"
| "np_div PInf PInf = NaN"
| "np_div PInf NInf = NaN"
| "np_div NInf PInf = NaN"
| "np_div NInf NInf = NaN"

fun np_exp :: "npfloat \<Rightarrow> npfloat" where
  "np_exp (Fin a) = Fin (exp a)"
| "np_exp PInf = PInf"
| "np_exp NInf = Fin 0"
| "np_exp NaN = NaN"

text \<open>
  \<^verbatim>\<open>np.exp\<close> of a scalar: the exponential, or \<open>inf\<close> when it is at or beyond
  \<open>2 ^ 1024\<close>, past the largest double.
\<close>

definition scalar_exp :: "real \<Rightarrow> npfloat" where
  "scalar_exp a = (if 2 ^ 1024 \<le> exp a then PInf else Fin (exp a))"

text \<open>
  A Python float to the power 2. Where the square leaves the range of a double the
  power raises \<^verbatim>\<open>OverflowError\<close>; a double's square does exactly when its
  magnitude is at least \<open>2 ^ 512\<close>.
\<close>

definition float_square :: "real \<Rightarrow> error + real" where
  "float_square x = (if 2 ^ 512 \<le> \<bar>x\<bar> then Inl OverflowError else Inr (x\<^sup>2))"

text \<open>\<^verbatim>\<open>arr ** 2\<close> on a float array is the elementwise square.\<close>

definition np_square :: "npfloat \<Rightarrow> npfloat" where
  "np_square a = np_mul a a"

text \<open>Comparisons: every comparison with \<open>nan\<close> is false.\<close>

fun np_le :: "npfloat \<Rightarrow> npfloat \<Rightarrow> bool" where
  "np_le NaN _ = False"
| "np_le _ NaN = False"
| "np_le NInf _ = True"
| "np_le _ PInf = True"
| "np_le (Fin a) (Fin b) = (a \<le> b)"
| "np_le (Fin a) NInf = False"
| "np_le PInf (Fin b) = False"
| "np_le PInf NInf = False"

definition np_less :: "npfloat \<Rightarrow> npfloat \<Rightarrow> bool" where
  "np_less a b = (np_le a b \<and> a \<noteq> b)"

fun is_finite :: "npfloat \<Rightarrow> bool" where
  "is_finite (Fin a) = True"
| "is_finite _ = False"

text \<open>
  \<^verbatim>\<open>np.max\<close> is the reduction of \<^verbatim>\<open>np.maximum\<close>, which propagates \<open>nan\<close>. On
  an array of size zero it raises \<^verbatim>\<open>ValueError\<close> (the reduction has no identity).
\<close>

fun np_maximum :: "npfloat \<Rightarrow> npfloat \<Rightarrow> npfloat" where
  "np_maximum NaN _ = NaN"
| "np_maximum _ NaN = NaN"
| "np_maximum a b = (if np_le a b then b else a)"

definition np_max :: "npfloat list \<Rightarrow> error + npfloat" where
  "np_max xs = (case xs of [] \<Rightarrow> Inl ValueError | x # rest \<Rightarrow> Inr (foldl np_maximum x rest))"

subsection \<open>The template evaluator\<close>

text \<open>\<^verbatim>\<open>x = lambda_max / wavelengths\<close>: a scalar divided by each element.\<close>

definition x_ratio :: "real list \<Rightarrow> real \<Rightarrow> npfloat list" where
  "x_ratio wavelengths lambda_max = map (\<lambda>w. np_div (Fin lambda_max) (Fin w)) wavelengths"

text \<open>
  A1 template parameters: Python scalars. The square in \<open>a1\<close> is the first of the two
  float powers; \<open>a1\<close> is the value of its line where that power returns, and the
  raise is taken in \<open>govardovskii_template\<close>. The exponent of \<open>a1\<close> is never
  positive, so this \<^verbatim>\<open>np.exp\<close> cannot overflow.
\<close>

definition a1 :: "real \<Rightarrow> real" where
  "a1 lambda_max = 0.8795 + 0.0459 * exp (- ((lambda_max - 300)\<^sup>2) / 11940)"

definition lambda_beta_A1 :: "real \<Rightarrow> real" where
  "lambda_beta_A1 lambda_max = 189 + 0.315 * lambda_max"

definition beta_bandwidth_A1 :: "real \<Rightarrow> real" where
  "beta_bandwidth_A1 lambda_max = - 40.5 + 0.195 * lambda_max"

text \<open>A1 alpha and beta bands.\<close>

definition alpha_A1 :: "real list \<Rightarrow> real \<Rightarrow> npfloat list" where
  "alpha_A1 wavelengths lambda_max =
     map (\<lambda>x. np_div (Fin 1)
            (np_add (np_add (np_add
               (np_exp (np_mul (Fin 69.7) (np_sub (Fin (a1 lambda_max)) x)))
               (np_exp (np_mul (Fin 28) (np_sub (Fin 0.922) x))))
               (np_exp (np_mul (Fin (- 14.9)) (np_sub (Fin 1.104) x))))
               (Fin 0.674)))
       (x_ratio wavelengths lambda_max)"

definition beta_A1 :: "real list \<Rightarrow> real \<Rightarrow> npfloat list" where
  "beta_A1 wavelengths lambda_max =
     map (\<lambda>w. np_mul (Fin 0.26)
            (np_exp (np_neg (np_square
               (np_div (np_sub (Fin w) (Fin (lambda_beta_A1 lambda_max)))
                       (Fin (beta_bandwidth_A1 lambda_max)))))))
       wavelengths"

definition sensitivity_A1 :: "real list \<Rightarrow> real \<Rightarrow> npfloat list" where
  "sensitivity_A1 wavelengths lambda_max =
     map2 np_add (alpha_A1 wavelengths lambda_max) (beta_A1 wavelengths lambda_max)"

text \<open>
  A2 template parameters. \<open>a2\<close> and \<open>A2_peak\<close> are infinite once their exponential
  is (for \<open>lambda_max\<close> above about 29553 and 39095). The square in
  \<open>beta_bandwidth_A2\<close> is the second float power, treated as the one in \<open>a1\<close>.
\<close>

definition a2 :: "real \<Rightarrow> npfloat" where
  "a2 lambda_max =
     np_add (Fin 0.875) (np_mul (Fin 0.0268) (scalar_exp ((lambda_max - 665) / 40.7)))"

definition A2_peak :: "real \<Rightarrow> npfloat" where
  "A2_peak lambda_max =
     np_add (Fin 62.7) (np_mul (Fin 1.834) (scalar_exp ((lambda_max - 625) / 54.2)))"

definition lambda_beta_A2 :: "real \<Rightarrow> real" where
  "lambda_beta_A2 lambda_max = 216.7 + 0.287 * lambda_max"

definition beta_bandwidth_A2 :: "real \<Rightarrow> real" where
  "beta_bandwidth_A2 lambda_max = 317 - 1.149 * lambda_max + 0.00124 * lambda_max\<^sup>2"

text \<open>A2 alpha and beta bands.\<close>

definition alpha_A2 :: "real list \<Rightarrow> real \<Rightarrow> npfloat list" where
  "alpha_A2 wavelengths lambda_max =
     map (\<lambda>x. np_div (Fin 1)
            (np_add (np_add (np_add
               (np_exp (np_mul (A2_peak lambda_max) (np_sub (a2 lambda_max) x)))
               (np_exp (np_mul (Fin 20.85) (np_sub (Fin 0.9101) x))))
               (np_exp (np_mul (Fin (- 10.37)) (np_sub (Fin 1.1123) x))))
               (Fin 0.5343)))
       (x_ratio wavelengths lambda_max)"

definition beta_A2 :: "real list \<Rightarrow> real \<Rightarrow> npfloat list" where
  "beta_A2 wavelengths lambda_max =
     map (\<lambda>w. np_mul (Fin 0.26)
            (np_exp (np_neg (np_square
               (np_div (np_sub (Fin w) (Fin (lambda_beta_A2 lambda_max)))
                       (Fin (beta_bandwidth_A2 lambda_max)))))))
       wavelengths"

definition sensitivity_A2 :: "real list \<Rightarrow> real \<Rightarrow> npfloat list" where
  "sensitivity_A2 wavelengths lambda_max =
     map2 np_add (alpha_A2 wavelengths lambda_max) (beta_A2 wavelengths lambda_max)"

text \<open>Combine A1 and A2 templates according to proportion.\<close>

definition total_sensitivity :: "real list \<Rightarrow> real \<Rightarrow> real \<Rightarrow> npfloat list" where
  "total_sensitivity wavelengths lambda_max A1_proportion =
     (let A1_weight = A1_proportion / 100;
          A2_weight = 1 - A1_weight
      in map2 np_add
           (map (np_mul (Fin A1_weight)) (sensitivity_A1 wavelengths lambda_max))
           (map (np_mul (Fin A2_weight)) (sensitivity_A2 wavelengths lambda_max)))"

text \<open>
  The two float powers of the function, in the order of the source:
  \<^verbatim>\<open>(lambda_max - 300)**2\<close> in the line of \<open>a1\<close> and \<^verbatim>\<open>lambda_max**2\<close> in the
  line of \<open>beta_bandwidth_A2\<close>. The first that overflows raises.
\<close>

definition lambda_max_squares :: "real \<Rightarrow> error + (real \<times> real)" where
  "lambda_max_squares lambda_max =
     (case float_square (lambda_max - 300) of
        Inl e \<Rightarrow> Inl e
      | Inr shifted \<Rightarrow>
          (case float_square lambda_max of
             Inl e \<Rightarrow> Inl e
           | Inr plain \<Rightarrow> Inr (shifted, plain)))"

text \<open>
  The whole function. Its exceptions are the \<^verbatim>\<open>OverflowError\<close> of a float power,
  raised before any maximum is taken, and the \<^verbatim>\<open>ValueError\<close> of \<^verbatim>\<open>np.max\<close>
  on an empty array. Nothing checks \<open>lambda_max\<close>, \<open>A1_proportion\<close> or the maximum
  itself before the division that normalizes.
\<close>

definition govardovskii_template ::
  "real list \<Rightarrow> real \<Rightarrow> real \<Rightarrow> error + (real list \<times> npfloat list)" where
  "govardovskii_template wavelengths lambda_max A1_proportion =
     (case lambda_max_squares lambda_max of
        Inl e \<Rightarrow> Inl e
      | Inr _ \<Rightarrow>
          (let total = total_sensitivity wavelengths lambda_max A1_proportion
           in case np_max total of
                Inl e \<Rightarrow> Inl e
              | Inr m \<Rightarrow> Inr (wavelengths, map (\<lambda>t. np_div t m) total)))"

subsection \<open>The plot renderer\<close>






subsection \<open>One sample at a time\<close>

text \<open>
  Every array operation of the evaluator is elementwise, so the value of each
  intermediate array at a sample depends on that sample only. These are the bodies of
  the maps above, for one wavelength \<open>w\<close>.
\<close>

definition x_at :: "real \<Rightarrow> real \<Rightarrow> npfloat" where
  "x_at lambda_max w = np_div (Fin lambda_max) (Fin w)"

definition alpha_A1_at :: "real \<Rightarrow> real \<Rightarrow> npfloat" where
  "alpha_A1_at lambda_max w =
     np_div (Fin 1)
       (np_add (np_add (np_add
          (np_exp (np_mul (Fin 69.7) (np_sub (Fin (a1 lambda_max)) (x_at lambda_max w))))
          (np_exp (np_mul (Fin 28) (np_sub (Fin 0.922) (x_at lambda_max w)))))
          (np_exp (np_mul (Fin (- 14.9)) (np_sub (Fin 1.104) (x_at lambda_max w)))))
          (Fin 0.674))"

definition beta_A1_at :: "real \<Rightarrow> real \<Rightarrow> npfloat" where
  "beta_A1_at lambda_max w =
     np_mul (Fin 0.26)
       (np_exp (np_neg (np_square
          (np_div (np_sub (Fin w) (Fin (lambda_beta_A1 lambda_max)))
                  (Fin (beta_bandwidth_A1 lambda_max))))))"

definition S1_at :: "real \<Rightarrow> real \<Rightarrow> npfloat" where
  "S1_at lambda_max w = np_add (alpha_A1_at lambda_max w) (beta_A1_at lambda_max w)"

definition alpha_A2_at :: "real \<Rightarrow> real \<Rightarrow> npfloat" where
  "alpha_A2_at lambda_max w =
     np_div (Fin 1)
       (np_add (np_add (np_add
          (np_exp (np_mul (A2_peak lambda_max)
                     (np_sub (a2 lambda_max) (x_at lambda_max w))))
          (np_exp (np_mul (Fin 20.85) (np_sub (Fin 0.9101) (x_at lambda_max w)))))
          (np_exp (np_mul (Fin (- 10.37)) (np_sub (Fin 1.1123) (x_at lambda_max w)))))
          (Fin 0.5343))"

definition beta_A2_at :: "real \<Rightarrow> real \<Rightarrow> npfloat" where
  "beta_A2_at lambda_max w =
     np_mul (Fin 0.26)
       (np_exp (np_neg (np_square
          (np_div (np_sub (Fin w) (Fin (lambda_beta_A2 lambda_max)))
                  (Fin (beta_bandwidth_A2 lambda_max))))))"

definition S2_at :: "real \<Rightarrow> real \<Rightarrow> npfloat" where
  "S2_at lambda_max w = np_add (alpha_A2_at lambda_max w) (beta_A2_at lambda_max w)"

definition total_at :: "real \<Rightarrow> real \<Rightarrow> real \<Rightarrow> npfloat" where
  "total_at lambda_max A1_proportion w =
     np_add (np_mul (Fin (A1_proportion / 100)) (S1_at lambda_max w))
            (np_mul (Fin (1 - A1_proportion / 100)) (S2_at lambda_max w))"

text \<open>The curve of a result; a raised error has none.\<close>

definition curve_of :: "error + (real list \<times> npfloat list) \<Rightarrow> npfloat list" where
  "curve_of r = (case r of Inl _ \<Rightarrow> [] | Inr (_, sensitivities) \<Rightarrow> sensitivities)"

text \<open>Division of a whole curve by one number, as the last line of the evaluator does.\<close>

definition normalize_by :: "npfloat \<Rightarrow> npfloat list \<Rightarrow> npfloat list" where
  "normalize_by m arr = map (\<lambda>t. np_div t m) arr"

subsection \<open>The closed form over the reals\<close>

text \<open>
  The template as the specification writes it, in real arithmetic: step 1
  (\<open>x = \<lambda>max / w\<close>), the three A1 shape parameters, the alpha band, the beta band (a
  Gaussian in the wavelength \<open>w\<close>, not in \<open>x\<close>) and their sum.
\<close>

definition spec_x :: "real \<Rightarrow> real \<Rightarrow> real" where
  "spec_x lmax w = lmax / w"

definition spec_a1 :: "real \<Rightarrow> real" where
  "spec_a1 lmax = 0.8795 + 0.0459 * exp (- (lmax - 300)\<^sup>2 / 11940)"

definition spec_lambda_beta_A1 :: "real \<Rightarrow> real" where
  "spec_lambda_beta_A1 lmax = 189 + 0.315 * lmax"

definition spec_b_beta_A1 :: "real \<Rightarrow> real" where
  "spec_b_beta_A1 lmax = - 40.5 + 0.195 * lmax"

definition spec_alpha1 :: "real \<Rightarrow> real \<Rightarrow> real" where
  "spec_alpha1 lmax w =
     1 / (exp (69.7 * (spec_a1 lmax - spec_x lmax w))
          + exp (28 * (0.922 - spec_x lmax w))
          + exp (- 14.9 * (1.104 - spec_x lmax w))
          + 0.674)"

definition spec_beta1 :: "real \<Rightarrow> real \<Rightarrow> real" where
  "spec_beta1 lmax w =
     0.26 * exp (- ((w - spec_lambda_beta_A1 lmax) / spec_b_beta_A1 lmax)\<^sup>2)"

definition spec_S1 :: "real \<Rightarrow> real \<Rightarrow> real" where
  "spec_S1 lmax w = spec_alpha1 lmax w + spec_beta1 lmax w"

text \<open>
  The A2 template over the reals, from the source's A2 lines: what they compute while
  \<open>a2\<close> and \<open>A2_peak\<close> are finite.
\<close>

definition real_a2 :: "real \<Rightarrow> real" where
  "real_a2 lambda_max = 0.875 + 0.0268 * exp ((lambda_max - 665) / 40.7)"

definition real_A2_peak :: "real \<Rightarrow> real" where
  "real_A2_peak lambda_max = 62.7 + 1.834 * exp ((lambda_max - 625) / 54.2)"

definition real_alpha2 :: "real \<Rightarrow> real \<Rightarrow> real" where
  "real_alpha2 lambda_max w =
     1 / (exp (real_A2_peak lambda_max * (real_a2 lambda_max - lambda_max / w))
          + exp (20.85 * (0.9101 - lambda_max / w))
          + exp (- 10.37 * (1.1123 - lambda_max / w))
          + 0.5343)"

definition real_beta2 :: "real \<Rightarrow> real \<Rightarrow> real" where
  "real_beta2 lambda_max w =
     0.26 * exp (- ((w - lambda_beta_A2 lambda_max) / beta_bandwidth_A2 lambda_max)\<^sup>2)"

definition real_S2 :: "real \<Rightarrow> real \<Rightarrow> real" where
  "real_S2 lambda_max w = real_alpha2 lambda_max w + real_beta2 lambda_max w"

text \<open>Ranges of intermediate values.\<close>

fun nonneg_or_nan :: "npfloat \<Rightarrow> bool" where
  "nonneg_or_nan (Fin r) = (0 \<le> r)"
| "nonneg_or_nan PInf = True"
| "nonneg_or_nan NInf = False"
| "nonneg_or_nan NaN = True"

fun fin_nonneg_or_nan :: "npfloat \<Rightarrow> bool" where
  "fin_nonneg_or_nan (Fin r) = (0 \<le> r)"
| "fin_nonneg_or_nan NaN = True"
| "fin_nonneg_or_nan _ = False"

fun fin_or_nan :: "npfloat \<Rightarrow> bool" where
  "fin_or_nan (Fin r) = True"
| "fin_or_nan NaN = True"
| "fin_or_nan _ = False"


text \<open>
  A single-chromophore template, normalized the way the evaluator normalizes: divided
  by its own maximum.
\<close>

definition normalized_template ::
  "real list \<Rightarrow> npfloat list \<Rightarrow> error + (real list \<times> npfloat list)" where
  "normalized_template wavelengths sensitivity =
     (case np_max sensitivity of
        Inl e \<Rightarrow> Inl e
      | Inr m \<Rightarrow> Inr (wavelengths, normalize_by m sensitivity))"


text \<open>
  The sample nearest to the peak wavelength, and a manual blend of two returned curves
  with weight \<open>w\<close>, as the testable properties of the specification word them.
\<close>

definition nearest_sample :: "real list \<Rightarrow> real \<Rightarrow> real" where
  "nearest_sample wavelengths lmax = arg_min_list (\<lambda>w. \<bar>w - lmax\<bar>) wavelengths"

definition manual_blend :: "real \<Rightarrow> npfloat list \<Rightarrow> npfloat list \<Rightarrow> npfloat list" where
  "manual_blend w curve100 curve0 =
     map2 (\<lambda>c1 c0. np_add (np_mul (Fin w) c1) (np_mul (Fin (1 - w)) c0)) curve100 curve0"

section \<open>Properties\<close>

subsection \<open>Facts about comparison and the maximum of an array\<close>

lemma np_le_refl: "a \<noteq> NaN \<Longrightarrow> np_le a a"
  by (cases a) simp_all

lemma np_le_trans: "np_le a b \<Longrightarrow> np_le b c \<Longrightarrow> np_le a c"
  by (cases a; cases b; cases c) simp_all

lemma np_le_antisym: "np_le a b \<Longrightarrow> np_le b a \<Longrightarrow> a = b"
  by (cases a; cases b) simp_all

lemma np_le_not_NaN: "np_le a b \<Longrightarrow> a \<noteq> NaN \<and> b \<noteq> NaN"
  by (cases a; cases b) simp_all

lemma np_le_total: "a \<noteq> NaN \<Longrightarrow> b \<noteq> NaN \<Longrightarrow> np_le a b \<or> np_le b a"
  by (cases a; cases b) auto

lemma np_maximum_NaN_right: "np_maximum a NaN = NaN"
  by (cases a) simp_all

lemma np_maximum_cases:
  "np_maximum a b = (if a = NaN \<or> b = NaN then NaN else if np_le a b then b else a)"
  by (cases a; cases b) simp_all

lemma foldl_np_maximum_NaN: "foldl np_maximum NaN xs = NaN"
  by (induction xs) simp_all

lemma foldl_np_maximum_mem: "foldl np_maximum x xs = m \<Longrightarrow> m \<noteq> NaN \<Longrightarrow> m \<in> set (x # xs)"
proof (induction xs arbitrary: x)
  case Nil
  then show ?case by simp
next
  case (Cons y ys)
  from Cons.prems have "foldl np_maximum (np_maximum x y) ys = m" by simp
  from Cons.IH [OF this Cons.prems(2)] have "m = np_maximum x y \<or> m \<in> set ys" by simp
  then show ?case
    using Cons.prems(2) by (auto simp: np_maximum_cases split: if_splits)
qed

lemma foldl_np_maximum_upper:
  "foldl np_maximum x xs = m \<Longrightarrow> m \<noteq> NaN \<Longrightarrow> \<forall>t \<in> set (x # xs). np_le t m"
proof (induction xs arbitrary: x)
  case Nil
  then show ?case by (simp add: np_le_refl)
next
  case (Cons y ys)
  from Cons.prems have f: "foldl np_maximum (np_maximum x y) ys = m" by simp
  have xy: "np_maximum x y \<noteq> NaN"
    using f Cons.prems(2) foldl_np_maximum_NaN by force
  then have ok: "x \<noteq> NaN" "y \<noteq> NaN"
    by (auto simp: np_maximum_cases split: if_splits)
  have ih: "\<forall>t \<in> set (np_maximum x y # ys). np_le t m"
    by (rule Cons.IH [OF f Cons.prems(2)])
  then have top: "np_le (np_maximum x y) m" by simp
  have "np_le x (np_maximum x y)" "np_le y (np_maximum x y)"
    using ok np_le_total [of x y] by (auto simp: np_maximum_cases np_le_refl)
  then have "np_le x m" "np_le y m"
    using top np_le_trans by blast+
  then show ?case using ih by simp
qed

lemma foldl_np_maximum_greatest:
  "m \<in> set (x # xs) \<Longrightarrow> \<forall>t \<in> set (x # xs). np_le t m \<Longrightarrow> foldl np_maximum x xs = m"
proof (induction xs arbitrary: x)
  case Nil
  then show ?case by simp
next
  case (Cons y ys)
  have le: "np_le x m" "np_le y m" using Cons.prems(2) by auto
  then have ok: "x \<noteq> NaN" "y \<noteq> NaN" "m \<noteq> NaN" using np_le_not_NaN by blast+
  have mx: "np_maximum x y = x \<or> np_maximum x y = y"
    by (auto simp: np_maximum_cases)
  have "m \<in> set (np_maximum x y # ys)"
  proof (cases "m \<in> set ys")
    case True then show ?thesis by simp
  next
    case False
    then have "m = x \<or> m = y" using Cons.prems(1) by auto
    then have "np_maximum x y = m"
      using le ok np_le_antisym by (auto simp: np_maximum_cases)
    then show ?thesis by simp
  qed
  moreover have "\<forall>t \<in> set (np_maximum x y # ys). np_le t m"
    using mx le Cons.prems(2) by auto
  ultimately have "foldl np_maximum (np_maximum x y) ys = m" by (rule Cons.IH)
  then show ?case by simp
qed

lemma np_max_mem: "np_max xs = Inr m \<Longrightarrow> m \<noteq> NaN \<Longrightarrow> m \<in> set xs"
  using foldl_np_maximum_mem by (cases xs) (auto simp: np_max_def)

lemma np_max_upper: "np_max xs = Inr m \<Longrightarrow> m \<noteq> NaN \<Longrightarrow> t \<in> set xs \<Longrightarrow> np_le t m"
proof (cases xs)
  case Nil
  then show "t \<in> set xs \<Longrightarrow> np_le t m" by simp
next
  case (Cons x rest)
  assume "np_max xs = Inr m" "m \<noteq> NaN" "t \<in> set xs"
  then show "np_le t m"
    using Cons foldl_np_maximum_upper [of x rest m] by (auto simp: np_max_def)
qed

lemma np_max_greatest: "m \<in> set xs \<Longrightarrow> \<forall>t \<in> set xs. np_le t m \<Longrightarrow> np_max xs = Inr m"
proof (cases xs)
  case Nil
  then show "m \<in> set xs \<Longrightarrow> np_max xs = Inr m" by simp
next
  case (Cons x rest)
  assume "m \<in> set xs" "\<forall>t \<in> set xs. np_le t m"
  then show "np_max xs = Inr m"
    using Cons foldl_np_maximum_greatest [of m x rest] by (simp add: np_max_def)
qed

lemma np_max_empty: "np_max xs = Inl e \<longleftrightarrow> xs = [] \<and> e = ValueError"
  unfolding np_max_def by (auto split: list.splits)


subsection \<open>The arrays, sample by sample\<close>

lemma map2_same: "map2 f (map g xs) (map h xs) = map (\<lambda>x. f (g x) (h x)) xs"
  by (induction xs) simp_all

lemma x_ratio_map: "x_ratio ws lm = map (x_at lm) ws"
  by (simp add: x_ratio_def x_at_def)

lemma alpha_A1_map: "alpha_A1 ws lm = map (alpha_A1_at lm) ws"
  by (simp add: alpha_A1_def x_ratio_def alpha_A1_at_def x_at_def comp_def)

lemma beta_A1_map: "beta_A1 ws lm = map (beta_A1_at lm) ws"
  by (simp add: beta_A1_def beta_A1_at_def)

lemma sensitivity_A1_map: "sensitivity_A1 ws lm = map (S1_at lm) ws"
  unfolding sensitivity_A1_def alpha_A1_map beta_A1_map map2_same S1_at_def ..

lemma alpha_A2_map: "alpha_A2 ws lm = map (alpha_A2_at lm) ws"
  by (simp add: alpha_A2_def x_ratio_def alpha_A2_at_def x_at_def comp_def)

lemma beta_A2_map: "beta_A2 ws lm = map (beta_A2_at lm) ws"
  by (simp add: beta_A2_def beta_A2_at_def)

lemma sensitivity_A2_map: "sensitivity_A2 ws lm = map (S2_at lm) ws"
  unfolding sensitivity_A2_def alpha_A2_map beta_A2_map map2_same S2_at_def ..

lemma total_sensitivity_map: "total_sensitivity ws lm p = map (total_at lm p) ws"
  unfolding total_sensitivity_def Let_def sensitivity_A1_map sensitivity_A2_map
  by (simp add: map2_same total_at_def comp_def)

subsection \<open>The two float powers\<close>

lemma lambda_max_squares_cases:
  "lambda_max_squares lm =
     (if \<bar>lm - 300\<bar> < 2 ^ 512 \<and> \<bar>lm\<bar> < 2 ^ 512 then Inr ((lm - 300)\<^sup>2, lm\<^sup>2)
      else Inl OverflowError)"
  unfolding lambda_max_squares_def float_square_def by (simp only: split: if_splits) auto

lemma lambda_max_squares_error: "lambda_max_squares lm = Inl e \<Longrightarrow> e = OverflowError"
  by (simp add: lambda_max_squares_cases split: if_splits)

lemma lambda_max_squares_moderate:
  "\<bar>lm\<bar> \<le> 10 ^ 6 \<Longrightarrow> lambda_max_squares lm = Inr ((lm - 300)\<^sup>2, lm\<^sup>2)"
proof -
  assume a: "\<bar>lm\<bar> \<le> 10 ^ 6"
  have "(10 ^ 6 + 300 :: real) < 2 ^ 512" by simp
  then have "\<bar>lm - 300\<bar> < 2 ^ 512" "\<bar>lm\<bar> < 2 ^ 512" using a by linarith+
  then show ?thesis by (simp add: lambda_max_squares_cases)
qed

lemma govardovskii_template_raises:
  "lambda_max_squares lm = Inl e \<Longrightarrow> govardovskii_template ws lm p = Inl e"
  by (simp add: govardovskii_template_def)

lemma govardovskii_template_normalized:
  "lambda_max_squares lm = Inr sq \<Longrightarrow>
   govardovskii_template ws lm p = normalized_template ws (total_sensitivity ws lm p)"
  by (simp add: govardovskii_template_def normalized_template_def normalize_by_def Let_def
      split: sum.splits)

lemma govardovskii_template_eq:
  "lambda_max_squares lm = Inr sq \<Longrightarrow>
   govardovskii_template ws lm p =
     (case np_max (map (total_at lm p) ws) of
        Inl e \<Rightarrow> Inl e
      | Inr m \<Rightarrow> Inr (ws, normalize_by m (map (total_at lm p) ws)))"
  by (simp add: govardovskii_template_normalized normalized_template_def total_sensitivity_map)



lemma np_exp_range: "nonneg_or_nan (np_exp v)"
  by (cases v) simp_all

lemma np_add_range: "nonneg_or_nan a \<Longrightarrow> nonneg_or_nan b \<Longrightarrow> nonneg_or_nan (np_add a b)"
  by (cases a; cases b) simp_all

lemma reciprocal_range:
  "nonneg_or_nan s \<Longrightarrow> 0 < d \<Longrightarrow> fin_nonneg_or_nan (np_div (Fin 1) (np_add s (Fin d)))"
  by (cases s) auto

lemma alpha_A1_at_range: "fin_nonneg_or_nan (alpha_A1_at lm w)"
  unfolding alpha_A1_at_def
  by (intro reciprocal_range np_add_range np_exp_range) simp

lemma alpha_A2_at_range: "fin_nonneg_or_nan (alpha_A2_at lm w)"
  unfolding alpha_A2_at_def
  by (intro reciprocal_range np_add_range np_exp_range) simp

lemma gaussian_range: "fin_nonneg_or_nan (np_mul (Fin 0.26) (np_exp (np_neg (np_square y))))"
  by (cases y) (simp_all add: np_square_def)

lemma beta_A1_at_range: "fin_nonneg_or_nan (beta_A1_at lm w)"
  unfolding beta_A1_at_def by (rule gaussian_range)

lemma beta_A2_at_range: "fin_nonneg_or_nan (beta_A2_at lm w)"
  unfolding beta_A2_at_def by (rule gaussian_range)

lemma fin_nonneg_add:
  "fin_nonneg_or_nan a \<Longrightarrow> fin_nonneg_or_nan b \<Longrightarrow> fin_nonneg_or_nan (np_add a b)"
  by (cases a; cases b) simp_all

lemma S1_at_range: "fin_nonneg_or_nan (S1_at lm w)"
  unfolding S1_at_def by (intro fin_nonneg_add alpha_A1_at_range beta_A1_at_range)

lemma S2_at_range: "fin_nonneg_or_nan (S2_at lm w)"
  unfolding S2_at_def by (intro fin_nonneg_add alpha_A2_at_range beta_A2_at_range)

lemma fin_nonneg_cases:
  assumes "fin_nonneg_or_nan v"
  obtains "v = NaN" | r where "v = Fin r" "0 \<le> r"
  using assms by (cases v) simp_all

lemma total_at_range: "fin_or_nan (total_at lm p w)"
proof -
  have 1: "fin_nonneg_or_nan (S1_at lm w)" by (rule S1_at_range)
  have 2: "fin_nonneg_or_nan (S2_at lm w)" by (rule S2_at_range)
  show ?thesis
    using 1 2 unfolding total_at_def
    by (cases "S1_at lm w"; cases "S2_at lm w") simp_all
qed

lemma total_sensitivity_range: "t \<in> set (total_sensitivity ws lm p) \<Longrightarrow> fin_or_nan t"
  by (auto simp: total_sensitivity_map total_at_range)

subsection \<open>The A2 parameters\<close>

lemma real_A2_peak_pos: "0 < real_A2_peak lm"
proof -
  have "0 < exp ((lm - 625) / 54.2)" by simp
  then show ?thesis unfolding real_A2_peak_def by (simp add: add_pos_pos)
qed

lemma exp_below_range: "a \<le> 4 \<Longrightarrow> exp a < (2 ^ 1024 :: real)"
proof -
  assume "a \<le> 4"
  then have "exp a \<le> exp (real 4 * 1)" by simp
  also have "\<dots> = exp 1 ^ 4" by (rule exp_of_nat_mult)
  also have "\<dots> \<le> (3::real) ^ 4" by (intro power_mono exp_le) simp
  also have "\<dots> < 2 ^ 1024" by simp
  finally show ?thesis .
qed

lemma scalar_exp_finite: "a \<le> 4 \<Longrightarrow> scalar_exp a = Fin (exp a)"
  using exp_below_range [of a] by (simp add: scalar_exp_def)

lemma a2_finite: "lm \<le> 800 \<Longrightarrow> a2 lm = Fin (real_a2 lm)"
proof -
  assume "lm \<le> 800"
  then have "(lm - 665) / 40.7 \<le> 4" by simp
  then show ?thesis by (simp add: a2_def real_a2_def scalar_exp_finite)
qed

lemma A2_peak_finite: "lm \<le> 800 \<Longrightarrow> A2_peak lm = Fin (real_A2_peak lm)"
proof -
  assume "lm \<le> 800"
  then have "(lm - 625) / 54.2 \<le> 4" by simp
  then show ?thesis by (simp add: A2_peak_def real_A2_peak_def scalar_exp_finite)
qed

lemma beta_bandwidth_A2_pos: "0 < beta_bandwidth_A2 lm"
proof -
  have "beta_bandwidth_A2 lm = 0.00124 * (lm - 28725 / 62)\<^sup>2 + (317 - 0.00124 * (28725 / 62)\<^sup>2)"
    unfolding beta_bandwidth_A2_def by (simp add: power2_eq_square algebra_simps)
  moreover have "0 \<le> 0.00124 * (lm - 28725 / 62)\<^sup>2" by simp
  moreover have "(0::real) < 317 - 0.00124 * (28725 / 62)\<^sup>2" by (simp add: power2_eq_square)
  ultimately show ?thesis by linarith
qed

subsection \<open>The evaluator agrees with the closed form\<close>

lemma exp_sum_pos: "0 < d \<Longrightarrow> 0 < exp a + exp b + exp c + (d::real)"
  using exp_gt_zero [of a] exp_gt_zero [of b] exp_gt_zero [of c] by linarith

lemma x_at_Fin: "w \<noteq> 0 \<Longrightarrow> x_at lm w = Fin (spec_x lm w)"
  by (simp add: x_at_def spec_x_def)

lemma spec_params: "spec_a1 lm = a1 lm" "spec_lambda_beta_A1 lm = lambda_beta_A1 lm"
  "spec_b_beta_A1 lm = beta_bandwidth_A1 lm"
  by (simp_all add: spec_a1_def a1_def spec_lambda_beta_A1_def lambda_beta_A1_def
      spec_b_beta_A1_def beta_bandwidth_A1_def)

lemma alpha_A1_at_Fin: "w \<noteq> 0 \<Longrightarrow> alpha_A1_at lm w = Fin (spec_alpha1 lm w)"
proof -
  assume w: "w \<noteq> 0"
  have pos: "exp (69.7 * (a1 lm - lm / w)) + exp (28 * (0.922 - lm / w))
             + exp (- 14.9 * (1.104 - lm / w)) + 0.674 \<noteq> (0::real)"
    using exp_sum_pos [of "0.674" "69.7 * (a1 lm - lm / w)" "28 * (0.922 - lm / w)"
        "- 14.9 * (1.104 - lm / w)"] by simp
  show ?thesis
    using w pos
    by (simp add: alpha_A1_at_def x_at_def spec_alpha1_def spec_x_def spec_params np_sub_def)
qed

lemma beta_A1_at_Fin:
  "beta_bandwidth_A1 lm \<noteq> 0 \<Longrightarrow> beta_A1_at lm w = Fin (spec_beta1 lm w)"
  by (simp add: beta_A1_at_def spec_beta1_def spec_params np_sub_def np_square_def
      power2_eq_square)

lemma S1_at_Fin:
  "w \<noteq> 0 \<Longrightarrow> beta_bandwidth_A1 lm \<noteq> 0 \<Longrightarrow> S1_at lm w = Fin (spec_S1 lm w)"
  by (simp add: S1_at_def spec_S1_def alpha_A1_at_Fin beta_A1_at_Fin)

lemma alpha_A2_at_Fin:
  "w \<noteq> 0 \<Longrightarrow> lm \<le> 800 \<Longrightarrow> alpha_A2_at lm w = Fin (real_alpha2 lm w)"
proof -
  assume w: "w \<noteq> 0" and lm: "lm \<le> 800"
  have pos: "exp (real_A2_peak lm * (real_a2 lm - lm / w)) + exp (20.85 * (0.9101 - lm / w))
             + exp (- 10.37 * (1.1123 - lm / w)) + 0.5343 \<noteq> (0::real)"
    using exp_sum_pos [of "0.5343" "real_A2_peak lm * (real_a2 lm - lm / w)"
        "20.85 * (0.9101 - lm / w)" "- 10.37 * (1.1123 - lm / w)"] by simp
  show ?thesis
    using w pos
    by (simp add: alpha_A2_at_def x_at_def real_alpha2_def np_sub_def
        a2_finite [OF lm] A2_peak_finite [OF lm])
qed

lemma beta_A2_at_Fin: "beta_A2_at lm w = Fin (real_beta2 lm w)"
  using beta_bandwidth_A2_pos [of lm]
  by (simp add: beta_A2_at_def real_beta2_def np_sub_def np_square_def power2_eq_square)

lemma S2_at_Fin: "w \<noteq> 0 \<Longrightarrow> lm \<le> 800 \<Longrightarrow> S2_at lm w = Fin (real_S2 lm w)"
  by (simp add: S2_at_def real_S2_def alpha_A2_at_Fin beta_A2_at_Fin)

subsection \<open>A sample at wavelength zero\<close>

lemma x_at_zero:
  "x_at lm 0 = (if lm = 0 then NaN else if 0 < lm then PInf else NInf)"
  by (simp add: x_at_def)

lemma alpha_A1_at_zero: "alpha_A1_at lm 0 = (if lm = 0 then NaN else Fin 0)"
  by (simp add: alpha_A1_at_def x_at_zero np_sub_def inf_times_def)

lemma alpha_A2_at_zero:
  "lm \<le> 800 \<Longrightarrow> alpha_A2_at lm 0 = (if lm = 0 then NaN else Fin 0)"
  using real_A2_peak_pos [of lm]
  by (simp add: alpha_A2_at_def x_at_zero np_sub_def inf_times_def a2_finite A2_peak_finite)

lemma S1_at_origin: "S1_at 0 0 = NaN"
  by (simp add: S1_at_def alpha_A1_at_zero)

lemma S2_at_origin: "S2_at 0 0 = NaN"
  by (simp add: S2_at_def alpha_A2_at_zero)

lemma S2_at_finite: "w \<noteq> 0 \<or> lm \<noteq> 0 \<Longrightarrow> lm \<le> 800 \<Longrightarrow> is_finite (S2_at lm w)"
proof (cases "w = 0")
  case False
  assume "lm \<le> 800"
  with False show ?thesis by (simp add: S2_at_Fin)
next
  case True
  assume "w \<noteq> 0 \<or> lm \<noteq> 0" "lm \<le> 800"
  with True show ?thesis
    by (simp add: S2_at_def alpha_A2_at_zero beta_A2_at_Fin)
qed

lemma S1_at_finite: "w \<noteq> 0 \<or> lm \<noteq> 0 \<Longrightarrow> beta_bandwidth_A1 lm \<noteq> 0 \<Longrightarrow> is_finite (S1_at lm w)"
proof (cases "w = 0")
  case False
  assume "beta_bandwidth_A1 lm \<noteq> 0"
  with False show ?thesis by (simp add: S1_at_Fin)
next
  case True
  assume "w \<noteq> 0 \<or> lm \<noteq> 0" "beta_bandwidth_A1 lm \<noteq> 0"
  with True show ?thesis
    by (simp add: S1_at_def alpha_A1_at_zero beta_A1_at_Fin)
qed

lemma total_at_100: "lm \<le> 800 \<Longrightarrow> total_at lm 100 w = S1_at lm w"
proof (cases "w = 0 \<and> lm = 0")
  case True
  then show ?thesis by (simp add: total_at_def S1_at_origin)
next
  case False
  assume "lm \<le> 800"
  with False have "is_finite (S2_at lm w)" by (intro S2_at_finite) auto
  then obtain s where s: "S2_at lm w = Fin s" by (cases "S2_at lm w") simp_all
  have "fin_nonneg_or_nan (S1_at lm w)" by (rule S1_at_range)
  then show ?thesis
    by (cases "S1_at lm w") (simp_all add: total_at_def s)
qed

lemma total_at_0: "is_finite (S1_at lm w) \<or> S2_at lm w = NaN \<Longrightarrow> total_at lm 0 w = S2_at lm w"
proof -
  assume a: "is_finite (S1_at lm w) \<or> S2_at lm w = NaN"
  have "fin_nonneg_or_nan (S2_at lm w)" "fin_nonneg_or_nan (S1_at lm w)"
    by (rule S2_at_range, rule S1_at_range)
  then show ?thesis using a
    by (cases "S1_at lm w"; cases "S2_at lm w") (simp_all add: total_at_def)
qed

lemma total_at_0_bandwidth: "beta_bandwidth_A1 lm \<noteq> 0 \<Longrightarrow> total_at lm 0 w = S2_at lm w"
proof (cases "w = 0 \<and> lm = 0")
  case True
  then show ?thesis by (simp add: total_at_def S1_at_origin S2_at_origin)
next
  case False
  assume "beta_bandwidth_A1 lm \<noteq> 0"
  with False have "is_finite (S1_at lm w)" by (intro S1_at_finite) auto
  then show ?thesis by (simp add: total_at_0)
qed

lemma spec_alpha1_pos: "0 < spec_alpha1 lm w"
  unfolding spec_alpha1_def
  using exp_sum_pos [of "0.674" "69.7 * (spec_a1 lm - spec_x lm w)" "28 * (0.922 - spec_x lm w)"
      "- 14.9 * (1.104 - spec_x lm w)"] by simp

lemma spec_beta1_pos: "0 < spec_beta1 lm w"
  unfolding spec_beta1_def by simp

lemma spec_S1_pos: "0 < spec_S1 lm w"
  unfolding spec_S1_def using spec_alpha1_pos [of lm w] spec_beta1_pos [of lm w] by linarith

lemma real_S2_pos: "0 < real_S2 lm w"
proof -
  have "0 < real_alpha2 lm w"
    unfolding real_alpha2_def
    using exp_sum_pos [of "0.5343" "real_A2_peak lm * (real_a2 lm - lm / w)"
        "20.85 * (0.9101 - lm / w)" "- 10.37 * (1.1123 - lm / w)"] by simp
  moreover have "0 < real_beta2 lm w" unfolding real_beta2_def by simp
  ultimately show ?thesis unfolding real_S2_def by linarith
qed

lemma normalize_positive_max:
  assumes mx: "np_max arr = Inr (Fin m)" and pos: "0 < m"
  shows "np_max (normalize_by (Fin m) arr) = Inr (Fin 1)"
    and "\<forall>v \<in> set (normalize_by (Fin m) arr). np_le v (Fin 1)"
proof -
  have mem: "Fin m \<in> set arr" using np_max_mem [OF mx] by simp
  have up: "\<And>t. t \<in> set arr \<Longrightarrow> np_le t (Fin m)" using np_max_upper [OF mx] by simp
  have one: "Fin 1 \<in> set (normalize_by (Fin m) arr)"
  proof -
    have "np_div (Fin m) (Fin m) = Fin 1" using pos by simp
    then show ?thesis unfolding normalize_by_def using mem by force
  qed
  have le: "np_le (np_div t (Fin m)) (Fin 1)" if "t \<in> set arr" for t
  proof -
    from up [OF that] show ?thesis using pos
      by (cases t) (simp_all add: divide_le_eq)
  qed
  then show all: "\<forall>v \<in> set (normalize_by (Fin m) arr). np_le v (Fin 1)"
    unfolding normalize_by_def by auto
  from one all show "np_max (normalize_by (Fin m) arr) = Inr (Fin 1)"
    by (rule np_max_greatest)
qed

lemma positive_max_finite:
  assumes "np_max (total_sensitivity ws lm p) = Inr m" and "np_less (Fin 0) m"
  shows "\<exists>r. m = Fin r \<and> 0 < r"
proof -
  from assms(2) have nn: "m \<noteq> NaN" by (auto simp: np_less_def dest: np_le_not_NaN)
  from np_max_mem [OF assms(1) nn] have "fin_or_nan m" by (rule total_sensitivity_range)
  with nn obtain r where r: "m = Fin r" by (cases m) simp_all
  with assms(2) show ?thesis by (auto simp: np_less_def)
qed

lemma normalize_marks_maximum:
  assumes mx: "np_max arr = Inr (Fin m)" and pos: "0 < m" and i: "i < length arr"
  shows "(normalize_by (Fin m) arr ! i = Fin 1) = (arr ! i = Fin m)"
proof -
  have "np_le (arr ! i) (Fin m)" using np_max_upper [OF mx] i by simp
  then show ?thesis
    using pos i by (cases "arr ! i") (auto simp: normalize_by_def)
qed

text \<open>
  Claim C3. The A1 branch computes the closed-form steps of the specification:
  \<open>x = \<lambda>max / w\<close> for each sample, the three shape parameters, the alpha band as
  the reciprocal of the four-term sum, the beta band as a Gaussian in the wavelength
  \<open>w\<close> (not in \<open>x\<close>), and \<open>S1\<close> as their sum. The closed form is over the reals,
  so it is compared where its two divisions are defined: no sample is zero and the beta
  bandwidth is not zero.
\<close>

theorem A1_branch_closed_form:
  assumes "\<forall>w \<in> set wavelengths. w \<noteq> 0" and "beta_bandwidth_A1 lambda_max \<noteq> 0"
  shows "x_ratio wavelengths lambda_max = map (\<lambda>w. Fin (spec_x lambda_max w)) wavelengths
       \<and> a1 lambda_max = spec_a1 lambda_max
       \<and> lambda_beta_A1 lambda_max = spec_lambda_beta_A1 lambda_max
       \<and> beta_bandwidth_A1 lambda_max = spec_b_beta_A1 lambda_max
       \<and> alpha_A1 wavelengths lambda_max = map (\<lambda>w. Fin (spec_alpha1 lambda_max w)) wavelengths
       \<and> beta_A1 wavelengths lambda_max = map (\<lambda>w. Fin (spec_beta1 lambda_max w)) wavelengths
       \<and> sensitivity_A1 wavelengths lambda_max
           = map (\<lambda>w. Fin (spec_S1 lambda_max w)) wavelengths"
proof -
  have "x_ratio wavelengths lambda_max = map (\<lambda>w. Fin (spec_x lambda_max w)) wavelengths"
    using assms(1) by (simp add: x_ratio_map x_at_Fin)
  moreover have "alpha_A1 wavelengths lambda_max
                   = map (\<lambda>w. Fin (spec_alpha1 lambda_max w)) wavelengths"
    using assms(1) by (simp add: alpha_A1_map alpha_A1_at_Fin)
  moreover have "beta_A1 wavelengths lambda_max
                   = map (\<lambda>w. Fin (spec_beta1 lambda_max w)) wavelengths"
    using assms(2) by (simp add: beta_A1_map beta_A1_at_Fin)
  moreover have "sensitivity_A1 wavelengths lambda_max
                   = map (\<lambda>w. Fin (spec_S1 lambda_max w)) wavelengths"
    using assms by (simp add: sensitivity_A1_map S1_at_Fin)
  ultimately show ?thesis by (simp add: spec_params)
qed

theorem A1_branch_closed_form_witness:
  "list_all (\<lambda>w. w \<noteq> 0) [400, 500, 600 :: real] \<and> beta_bandwidth_A1 500 \<noteq> 0
   \<and> x_ratio [400, 500, 600] 500 = [Fin (5 / 4), Fin 1, Fin (5 / 6)]
   \<and> sensitivity_A1 [400, 500, 600] 500
       = [Fin (spec_S1 500 400), Fin (spec_S1 500 500), Fin (spec_S1 500 600)]"
proof -
  have h1: "\<forall>w \<in> set [400, 500, 600 :: real]. w \<noteq> 0" by simp
  have h2: "beta_bandwidth_A1 500 \<noteq> 0" by (simp add: beta_bandwidth_A1_def)
  show ?thesis
    using h2 A1_branch_closed_form [OF h1 h2] by (simp add: spec_x_def)
qed

subsection \<open>Bounds on the exponential\<close>

lemma exp_lower1: "t \<le> u \<Longrightarrow> 1 + t \<le> exp (u::real)"
  using exp_ge_add_one_self [of t] exp_le_cancel_iff [of t u] by linarith

lemma exp_lower2: "0 \<le> t \<Longrightarrow> t \<le> u \<Longrightarrow> 1 + t + t\<^sup>2 / 2 \<le> exp (u::real)"
  using exp_lower_Taylor_quadratic [of t] exp_le_cancel_iff [of t u] by linarith

lemma exp_upper1: "0 \<le> t \<Longrightarrow> u \<le> - t \<Longrightarrow> exp (u::real) \<le> 1 / (1 + t)"
proof -
  assume t: "0 \<le> t" and u: "u \<le> - t"
  have "exp u \<le> exp (- t)" using u by simp
  also have "exp (- t) = 1 / exp t" by (simp add: exp_minus inverse_eq_divide)
  also have "1 / exp t \<le> 1 / (1 + t)"
    using t exp_ge_add_one_self [of t] by (intro divide_left_mono) (auto intro: mult_pos_pos)
  finally show ?thesis .
qed

lemma exp_upper2: "0 \<le> t \<Longrightarrow> u \<le> - t \<Longrightarrow> exp (u::real) \<le> 1 / (1 + t + t\<^sup>2 / 2)"
proof -
  assume t: "0 \<le> t" and u: "u \<le> - t"
  have p: "0 < 1 + t + t\<^sup>2 / 2" using t by (simp add: add_pos_nonneg)
  have "exp u \<le> exp (- t)" using u by simp
  also have "exp (- t) = 1 / exp t" by (simp add: exp_minus inverse_eq_divide)
  also have "1 / exp t \<le> 1 / (1 + t + t\<^sup>2 / 2)"
    using p exp_lower_Taylor_quadratic [OF t] by (intro divide_left_mono) (auto intro: mult_pos_pos)
  finally show ?thesis .
qed

lemma exp_neg_lower: "0 \<le> t \<Longrightarrow> t \<le> 1 \<Longrightarrow> - t \<le> u \<Longrightarrow> 1 / (1 + t + t\<^sup>2) \<le> exp (u::real)"
proof -
  assume t: "0 \<le> t" "t \<le> 1" and u: "- t \<le> u"
  have p: "0 < 1 + t + t\<^sup>2" using t by (simp add: add_pos_nonneg)
  have "1 / (1 + t + t\<^sup>2) \<le> 1 / exp t"
    using exp_bound [OF t] by (intro divide_left_mono) (auto intro: mult_pos_pos p)
  also have "1 / exp t = exp (- t)" by (simp add: exp_minus inverse_eq_divide)
  also have "exp (- t) \<le> exp u" using u by simp
  finally show ?thesis .
qed

lemma exp_lower_pow:
  assumes "0 \<le> t" and "real n * t \<le> u"
  shows "(1 + t + t\<^sup>2 / 2) ^ n \<le> exp u"
proof -
  have "(1 + t + t\<^sup>2 / 2) ^ n \<le> exp t ^ n"
    using assms(1) exp_lower_Taylor_quadratic [OF assms(1)]
    by (intro power_mono) (simp_all add: add_nonneg_nonneg)
  also have "exp t ^ n = exp (real n * t)" by (simp add: exp_of_nat_mult)
  also have "\<dots> \<le> exp u" using assms(2) by simp
  finally show ?thesis .
qed

text \<open>Past 720 the exponential is beyond the range of a double.\<close>

lemma exp_beyond_range: "2 ^ 1024 \<le> exp u" if "720 \<le> u" for u :: real
proof -
  define q :: real where "q = 1 + 45 / 256 + (45 / 256)\<^sup>2 / 2"
  have "q ^ 4096 \<le> exp u"
    unfolding q_def using that by (intro exp_lower_pow) simp_all
  moreover have "(2::real) \<le> q ^ 4"
    unfolding q_def by (simp add: power2_eq_square power4_eq_xxxx)
  then have "(2::real) ^ 1024 \<le> (q ^ 4) ^ 1024" by (intro power_mono) simp_all
  moreover have "(q ^ 4) ^ 1024 = q ^ 4096" by (simp add: power_mult [symmetric])
  ultimately show ?thesis by linarith
qed

subsection \<open>Bounds on the A1 template\<close>

lemma spec_a1_bounds: "0.8795 < spec_a1 lm" "spec_a1 lm \<le> 0.9254"
proof -
  define e where "e = exp (- (lm - 300)\<^sup>2 / 11940)"
  have e: "0 < e" "e \<le> 1" by (simp_all add: e_def)
  have a: "spec_a1 lm = 0.8795 + 0.0459 * e" by (simp add: spec_a1_def e_def)
  show "0.8795 < spec_a1 lm" using e(1) unfolding a by simp
  show "spec_a1 lm \<le> 0.9254" using e(2) unfolding a by simp
qed

lemma spec_alpha1_lower:
  assumes "exp (69.7 * (spec_a1 lm - spec_x lm w)) \<le> A"
    and "exp (28 * (0.922 - spec_x lm w)) \<le> B"
    and "exp (- 14.9 * (1.104 - spec_x lm w)) \<le> C"
  shows "1 / (A + B + C + 0.674) \<le> spec_alpha1 lm w"
proof -
  let ?d = "exp (69.7 * (spec_a1 lm - spec_x lm w)) + exp (28 * (0.922 - spec_x lm w))
            + exp (- 14.9 * (1.104 - spec_x lm w)) + 0.674"
  have pos: "0 < ?d"
    using exp_sum_pos [of "0.674" "69.7 * (spec_a1 lm - spec_x lm w)" "28 * (0.922 - spec_x lm w)"
        "- 14.9 * (1.104 - spec_x lm w)"] by simp
  have le: "?d \<le> A + B + C + 0.674" using assms by linarith
  have "1 / (A + B + C + 0.674) \<le> 1 / ?d"
    using pos le by (intro divide_left_mono) (auto intro: mult_pos_pos)
  then show ?thesis unfolding spec_alpha1_def .
qed

lemma spec_alpha1_upper:
  assumes "0 < L"
    and "L \<le> exp (69.7 * (spec_a1 lm - spec_x lm w)) \<or> L \<le> exp (- 14.9 * (1.104 - spec_x lm w))"
  shows "spec_alpha1 lm w \<le> 1 / (L + 0.674)"
proof -
  let ?e1 = "exp (69.7 * (spec_a1 lm - spec_x lm w))"
  let ?e2 = "exp (28 * (0.922 - spec_x lm w))"
  let ?e3 = "exp (- 14.9 * (1.104 - spec_x lm w))"
  have "0 < ?e1" "0 < ?e2" "0 < ?e3" by simp_all
  then have le: "L + 0.674 \<le> ?e1 + ?e2 + ?e3 + 0.674" using assms(2) by linarith
  have "1 / (?e1 + ?e2 + ?e3 + 0.674) \<le> 1 / (L + 0.674)"
    using assms(1) le by (intro divide_left_mono) (auto intro: mult_pos_pos)
  then show ?thesis unfolding spec_alpha1_def .
qed

lemma spec_beta1_le: "spec_beta1 lm w \<le> 0.26"
proof -
  have "exp (- ((w - spec_lambda_beta_A1 lm) / spec_b_beta_A1 lm)\<^sup>2) \<le> 1" by simp
  then show ?thesis unfolding spec_beta1_def by simp
qed

text \<open>At the peak wavelength itself the A1 alpha band is at least 0.63.\<close>

lemma spec_alpha1_peak: "lm \<noteq> 0 \<Longrightarrow> 0.63 \<le> spec_alpha1 lm lm"
proof -
  assume lm: "lm \<noteq> 0"
  then have x: "spec_x lm lm = 1" by (simp add: spec_x_def)
  have 1: "exp (69.7 * (spec_a1 lm - spec_x lm lm)) \<le> 1 / (1 + 5)"
    using spec_a1_bounds(2) [of lm] by (intro exp_upper1) (simp_all add: x)
  have 2: "exp (28 * (0.922 - spec_x lm lm)) \<le> 1 / (1 + 2)"
    by (intro exp_upper1) (simp_all add: x)
  have 3: "exp (- 14.9 * (1.104 - spec_x lm lm)) \<le> 1 / (1 + 3 / 2)"
    by (intro exp_upper1) (simp_all add: x)
  have "(0.63::real) \<le> 1 / (1 / (1 + 5) + 1 / (1 + 2) + 1 / (1 + 3 / 2) + 0.674)" by simp
  also have "\<dots> \<le> spec_alpha1 lm lm" by (rule spec_alpha1_lower [OF 1 2 3])
  finally show ?thesis .
qed

lemma spec_S1_peak: "lm \<noteq> 0 \<Longrightarrow> 0.63 \<le> spec_S1 lm lm"
  using spec_alpha1_peak [of lm] spec_beta1_pos [of lm lm] unfolding spec_S1_def by linarith

text \<open>The example of the specification: peak 500, samples 400, 500 and 600.\<close>

lemma spec_S1_500_400: "spec_S1 500 400 \<le> 0.53"
proof -
  have "1 + 2.17 \<le> exp (- 14.9 * (1.104 - spec_x 500 400))"
    by (intro exp_lower1) (simp add: spec_x_def)
  then have "spec_alpha1 500 400 \<le> 1 / (1 + 2.17 + 0.674)"
    by (intro spec_alpha1_upper) simp_all
  also have "\<dots> \<le> (0.27::real)" by simp
  finally show ?thesis using spec_beta1_le [of 500 400] unfolding spec_S1_def by linarith
qed

lemma spec_S1_500_600: "spec_S1 500 600 \<le> 0.53"
proof -
  have "1 + 3.2 \<le> exp (69.7 * (spec_a1 500 - spec_x 500 600))"
    using spec_a1_bounds(1) [of 500] by (intro exp_lower1) (simp add: spec_x_def)
  then have "spec_alpha1 500 600 \<le> 1 / (1 + 3.2 + 0.674)"
    by (intro spec_alpha1_upper) simp_all
  also have "\<dots> \<le> (0.27::real)" by simp
  finally show ?thesis using spec_beta1_le [of 500 600] unfolding spec_S1_def by linarith
qed

subsection \<open>The two ends of the blend\<close>

lemma total_sensitivity_100:
  "lm \<le> 800 \<Longrightarrow> total_sensitivity ws lm 100 = sensitivity_A1 ws lm"
  by (simp add: total_sensitivity_map sensitivity_A1_map total_at_100)

lemma total_sensitivity_0:
  "beta_bandwidth_A1 lm \<noteq> 0 \<Longrightarrow> total_sensitivity ws lm 0 = sensitivity_A2 ws lm"
  by (simp add: total_sensitivity_map sensitivity_A2_map total_at_0_bandwidth)

lemma lambda_max_squares_visible:
  "300 < lm \<Longrightarrow> lm < 800 \<Longrightarrow> lambda_max_squares lm = Inr ((lm - 300)\<^sup>2, lm\<^sup>2)"
  by (intro lambda_max_squares_moderate) simp

text \<open>
  Claim C5, as the code has it. For every wavelength array and every \<open>lambda_max\<close>
  in the valid range (300, 800), the combined curve at \<open>A1_proportion = 100\<close> is the A1
  template alone and the call returns the normalized pure-A1 template, and at
  \<open>A1_proportion = 0\<close> the combined curve is the A2 template alone and the call
  returns the normalized pure-A2 template. The other template is still computed and
  multiplied by the weight zero; in that range it is finite at every sample, and zero
  times a finite number is zero.
\<close>

theorem boundary_reduction:
  "300 < lambda_max \<and> lambda_max < 800 \<longrightarrow>
     total_sensitivity wavelengths lambda_max 100 = sensitivity_A1 wavelengths lambda_max
     \<and> govardovskii_template wavelengths lambda_max 100
         = normalized_template wavelengths (sensitivity_A1 wavelengths lambda_max)
     \<and> total_sensitivity wavelengths lambda_max 0 = sensitivity_A2 wavelengths lambda_max
     \<and> govardovskii_template wavelengths lambda_max 0
         = normalized_template wavelengths (sensitivity_A2 wavelengths lambda_max)"
proof
  assume r: "300 < lambda_max \<and> lambda_max < 800"
  then have sq: "lambda_max_squares lambda_max = Inr ((lambda_max - 300)\<^sup>2, lambda_max\<^sup>2)"
    by (simp add: lambda_max_squares_visible)
  have bw: "beta_bandwidth_A1 lambda_max \<noteq> 0" using r by (simp add: beta_bandwidth_A1_def)
  have le: "lambda_max \<le> 800" using r by simp
  show "total_sensitivity wavelengths lambda_max 100 = sensitivity_A1 wavelengths lambda_max
     \<and> govardovskii_template wavelengths lambda_max 100
         = normalized_template wavelengths (sensitivity_A1 wavelengths lambda_max)
     \<and> total_sensitivity wavelengths lambda_max 0 = sensitivity_A2 wavelengths lambda_max
     \<and> govardovskii_template wavelengths lambda_max 0
         = normalized_template wavelengths (sensitivity_A2 wavelengths lambda_max)"
    by (simp add: govardovskii_template_normalized [OF sq] total_sensitivity_100 [OF le]
        total_sensitivity_0 [OF bw])
qed

theorem boundary_reduction_witness:
  "(300 :: real) < 500 \<and> (500 :: real) < 800
   \<and> total_sensitivity [400, 500, 600] 500 100 = sensitivity_A1 [400, 500, 600] 500
   \<and> govardovskii_template [400, 500, 600] 500 100
       = normalized_template [400, 500, 600] (sensitivity_A1 [400, 500, 600] 500)
   \<and> total_sensitivity [400, 500, 600] 500 0 = sensitivity_A2 [400, 500, 600] 500
   \<and> govardovskii_template [400, 500, 600] 500 0
       = normalized_template [400, 500, 600] (sensitivity_A2 [400, 500, 600] 500)"
  using boundary_reduction [of 500 "[400, 500, 600]"] by simp

lemma np_mul_NaN_right: "np_mul v NaN = NaN"
  by (cases v) simp_all

lemma np_add_NaN_right: "np_add v NaN = NaN"
  by (cases v) simp_all

lemma np_sub_PInf_PInf: "np_sub PInf PInf = NaN"
  by (simp add: np_sub_def)

lemma a2_beyond_range: "a2 30000 = PInf"
proof -
  have "(2::real) ^ 1024 \<le> exp ((30000 - 665) / 40.7)" by (rule exp_beyond_range) simp
  then show ?thesis by (simp add: a2_def scalar_exp_def inf_times_def)
qed

text \<open>
  The claim as stated fails at the sample 0 with \<open>lambda_max = 30000\<close> and
  \<open>A1_proportion = 100\<close>: \<open>a2\<close> is infinite and so is \<open>x\<close>, their difference is
  \<open>nan\<close>, the A2 template is \<open>nan\<close>, and zero times \<open>nan\<close> is \<open>nan\<close>. The call
  returns \<open>nan\<close> where the normalized pure-A1 template is 1.
\<close>

theorem boundary_reduction_counterexample:
  "govardovskii_template [0] 30000 100 = Inr ([0], [NaN])
   \<and> normalized_template [0] (sensitivity_A1 [0] 30000) = Inr ([0], [Fin 1])"
proof -
  have sq: "lambda_max_squares 30000 = Inr ((30000 - 300)\<^sup>2, 30000\<^sup>2)"
    by (intro lambda_max_squares_moderate) simp
  have "alpha_A2_at 30000 0 = NaN"
    by (simp add: alpha_A2_at_def x_at_zero a2_beyond_range np_sub_PInf_PInf np_mul_NaN_right)
  then have "S2_at 30000 0 = NaN" by (simp add: S2_at_def)
  then have t: "total_at 30000 100 0 = NaN"
    by (simp add: total_at_def np_add_NaN_right)
  have 1: "govardovskii_template [0] 30000 100 = Inr ([0], [NaN])"
    by (simp add: govardovskii_template_eq [OF sq] t np_max_def normalize_by_def)
  have bw: "beta_bandwidth_A1 30000 \<noteq> 0" by (simp add: beta_bandwidth_A1_def)
  have s: "sensitivity_A1 [0] 30000 = [Fin (spec_beta1 30000 0)]"
    by (simp add: sensitivity_A1_map S1_at_def alpha_A1_at_zero beta_A1_at_Fin [OF bw])
  have 2: "normalized_template [0] (sensitivity_A1 [0] 30000) = Inr ([0], [Fin 1])"
    using spec_beta1_pos [of 30000 0]
    by (simp add: s normalized_template_def np_max_def normalize_by_def)
  from 1 2 show ?thesis by simp
qed

subsection \<open>What the evaluator rejects\<close>




subsection \<open>The renderer\<close>








subsection \<open>A maximum of zero\<close>

lemma not_finite_over_zero: "np_le t (Fin 0) \<Longrightarrow> \<not> is_finite (np_div t (Fin 0))"
  by (cases t) auto

text \<open>
  Claim C8. Nothing guards the normalization. When the function reaches it, that is
  when neither float power has raised, and the maximum of the combined curve is zero,
  the evaluator raises nothing there: it returns the combined curve divided by zero,
  and every value of that curve is non-finite (zero over zero is \<open>nan\<close>, a negative
  value over zero is \<open>-inf\<close>).
\<close>

theorem degenerate_normalization:
  assumes "lambda_max_squares lambda_max = Inr squares"
    and "np_max (total_sensitivity wavelengths lambda_max A1_proportion) = Inr (Fin 0)"
  shows "\<exists>curve. govardovskii_template wavelengths lambda_max A1_proportion
                    = Inr (wavelengths, curve)
               \<and> curve = map (\<lambda>t. np_div t (Fin 0))
                           (total_sensitivity wavelengths lambda_max A1_proportion)
               \<and> curve \<noteq> []
               \<and> list_all (\<lambda>v. \<not> is_finite v) curve"
proof -
  let ?total = "total_sensitivity wavelengths lambda_max A1_proportion"
  have ne: "?total \<noteq> []" using assms(2) by (auto simp: np_max_def)
  have "np_le t (Fin 0)" if "t \<in> set ?total" for t
    using np_max_upper [OF assms(2) _ that] by simp
  then have "list_all (\<lambda>v. \<not> is_finite v) (map (\<lambda>t. np_div t (Fin 0)) ?total)"
    by (simp add: list_all_iff not_finite_over_zero)
  moreover have "govardovskii_template wavelengths lambda_max A1_proportion
                   = Inr (wavelengths, map (\<lambda>t. np_div t (Fin 0)) ?total)"
    using assms(2)
    by (simp add: govardovskii_template_normalized [OF assms(1)] normalized_template_def
        normalize_by_def)
  ultimately show ?thesis using ne by simp
qed

lemma total_at_degenerate: "total_at (2700 / 13) 100 0 = Fin 0"
proof -
  have "beta_A1_at (2700 / 13) 0 = Fin 0"
    by (simp add: beta_A1_at_def lambda_beta_A1_def beta_bandwidth_A1_def np_sub_def
        np_square_def)
  then have "S1_at (2700 / 13) 0 = Fin 0"
    by (simp add: S1_at_def alpha_A1_at_zero)
  then show ?thesis by (simp add: total_at_100)
qed

theorem degenerate_normalization_witness:
  "lambda_max_squares (2700 / 13) = Inr ((2700 / 13 - 300)\<^sup>2, (2700 / 13)\<^sup>2)
   \<and> np_max (total_sensitivity [0] (2700 / 13) 100) = Inr (Fin 0)
   \<and> govardovskii_template [0] (2700 / 13) 100 = Inr ([0], [NaN])"
proof -
  have sq: "lambda_max_squares (2700 / 13) = Inr ((2700 / 13 - 300)\<^sup>2, (2700 / 13)\<^sup>2)"
    by (intro lambda_max_squares_moderate) simp
  have h: "np_max (total_sensitivity [0] (2700 / 13) 100) = Inr (Fin 0)"
    by (simp add: total_sensitivity_map total_at_degenerate np_max_def)
  have t: "total_sensitivity [0] (2700 / 13) 100 = [Fin 0]"
    by (simp add: total_sensitivity_map total_at_degenerate)
  show ?thesis
    using sq h degenerate_normalization [OF sq h] by (simp add: t)
qed

subsection \<open>Normalizing a curve of finite values\<close>

lemma np_max_Fin: "rs \<noteq> [] \<Longrightarrow> np_max (map Fin rs) = Inr (Fin (Max (set rs)))"
proof (rule np_max_greatest)
  assume ne: "rs \<noteq> []"
  then have "Max (set rs) \<in> set rs" by (intro Max_in) simp_all
  then show "Fin (Max (set rs)) \<in> set (map Fin rs)" by simp
  show "\<forall>t \<in> set (map Fin rs). np_le t (Fin (Max (set rs)))" by simp
qed

lemma normalized_template_Fin:
  assumes "0 < m" and "m \<in> set rs" and "\<forall>r \<in> set rs. r \<le> m"
  shows "normalized_template ws (map Fin rs) = Inr (ws, map (\<lambda>r. Fin (r / m)) rs)"
proof -
  have "np_max (map Fin rs) = Inr (Fin m)"
    using assms(2,3) by (intro np_max_greatest) auto
  then show ?thesis
    using assms(1) by (simp add: normalized_template_def normalize_by_def comp_def)
qed

subsection \<open>The pure A1 curve and where its maximum is\<close>

lemma beta_bandwidth_A1_visible: "300 < lm \<Longrightarrow> 0 < beta_bandwidth_A1 lm"
  by (simp add: beta_bandwidth_A1_def)

lemma S1_at_positive:
  assumes "300 < lm"
  shows "\<exists>r. 0 < r \<and> S1_at lm w = Fin r"
proof (cases "w = 0")
  case False
  then have "S1_at lm w = Fin (spec_S1 lm w)"
    using beta_bandwidth_A1_visible [OF assms] by (simp add: S1_at_Fin)
  then show ?thesis using spec_S1_pos by blast
next
  case True
  have "S1_at lm 0 = Fin (spec_beta1 lm 0)"
    using assms beta_bandwidth_A1_visible [OF assms]
    by (simp add: S1_at_def alpha_A1_at_zero beta_A1_at_Fin)
  then show ?thesis using True spec_beta1_pos by blast
qed

lemma sensitivity_A1_reals:
  assumes "300 < lm"
  shows "\<exists>rs. sensitivity_A1 ws lm = map Fin rs \<and> length rs = length ws \<and> (\<forall>r \<in> set rs. 0 < r)"
proof (induction ws)
  case Nil
  then show ?case by (simp add: sensitivity_A1_map)
next
  case (Cons w ws)
  then obtain rs where rs: "sensitivity_A1 ws lm = map Fin rs" "length rs = length ws"
    "\<forall>r \<in> set rs. 0 < r" by blast
  obtain r where r: "0 < r" "S1_at lm w = Fin r" using S1_at_positive [OF assms] by blast
  have "sensitivity_A1 (w # ws) lm = map Fin (r # rs)"
    using rs(1) r(2) by (simp add: sensitivity_A1_map)
  then show ?case using rs(2,3) r(1) by (intro exI [of _ "r # rs"]) simp
qed

lemma pure_A1_curve:
  assumes "300 < lm" and "ws \<noteq> []" and "lm < 800"
  shows "\<exists>curve. govardovskii_template ws lm 100 = Inr (ws, curve)
           \<and> np_max curve = Inr (Fin 1)
           \<and> (\<forall>i < length ws. (curve ! i = Fin 1)
                 = (np_max (sensitivity_A1 ws lm) = Inr (sensitivity_A1 ws lm ! i)))"
proof -
  obtain rs where rs: "sensitivity_A1 ws lm = map Fin rs" "length rs = length ws"
    "\<forall>r \<in> set rs. 0 < r" using sensitivity_A1_reals [OF assms(1)] by blast
  have ne: "rs \<noteq> []" using rs(2) assms(2) by auto
  define m where "m = Max (set rs)"
  have mem: "m \<in> set rs" unfolding m_def using ne by (intro Max_in) simp_all
  have up: "\<forall>r \<in> set rs. r \<le> m" unfolding m_def by simp
  have pos: "0 < m" using mem rs(3) by blast
  have mx: "np_max (sensitivity_A1 ws lm) = Inr (Fin m)"
    unfolding rs(1) m_def by (rule np_max_Fin [OF ne])
  let ?curve = "map (\<lambda>r. Fin (r / m)) rs"
  have g: "govardovskii_template ws lm 100 = Inr (ws, ?curve)"
    unfolding govardovskii_template_normalized [OF lambda_max_squares_visible [OF assms(1,3)]]
      total_sensitivity_100 [OF less_imp_le [OF assms(3)]] rs(1)
    by (rule normalized_template_Fin [OF pos mem up])
  have c: "?curve = normalize_by (Fin m) (sensitivity_A1 ws lm)"
    using pos by (simp add: rs(1) normalize_by_def comp_def)
  have one: "np_max ?curve = Inr (Fin 1)"
    unfolding c by (rule normalize_positive_max(1) [OF mx pos])
  have "(?curve ! i = Fin 1) = (np_max (sensitivity_A1 ws lm) = Inr (sensitivity_A1 ws lm ! i))"
    if "i < length ws" for i
  proof -
    have i: "i < length rs" using that rs(2) by simp
    then have "?curve ! i = Fin (rs ! i / m)" by simp
    moreover have "sensitivity_A1 ws lm ! i = Fin (rs ! i)" using i by (simp add: rs(1))
    ultimately show ?thesis using pos by (auto simp: mx)
  qed
  with g one show ?thesis by blast
qed

lemma example_curve:
  "\<exists>lo hi. govardovskii_template [400, 500, 600] 500 100
             = Inr ([400, 500, 600], [Fin lo, Fin 1, Fin hi])"
proof -
  have s: "sensitivity_A1 [400, 500, 600] 500
             = map Fin [spec_S1 500 400, spec_S1 500 500, spec_S1 500 600]"
    by (simp add: sensitivity_A1_map S1_at_Fin beta_bandwidth_A1_def)
  have sq: "lambda_max_squares 500 = Inr ((500 - 300)\<^sup>2, 500\<^sup>2)"
    by (intro lambda_max_squares_moderate) simp
  have t100: "total_sensitivity [400, 500, 600] 500 100 = sensitivity_A1 [400, 500, 600] 500"
    by (rule total_sensitivity_100) simp
  have pk: "0.63 \<le> spec_S1 500 500" by (rule spec_S1_peak) simp
  have pos: "0 < spec_S1 500 500" by (rule spec_S1_pos)
  have up: "\<forall>r \<in> set [spec_S1 500 400, spec_S1 500 500, spec_S1 500 600]. r \<le> spec_S1 500 500"
    using pk spec_S1_500_400 spec_S1_500_600 by simp
  have "govardovskii_template [400, 500, 600] 500 100
          = Inr ([400, 500, 600],
                 map (\<lambda>r. Fin (r / spec_S1 500 500))
                   [spec_S1 500 400, spec_S1 500 500, spec_S1 500 600])"
    unfolding govardovskii_template_normalized [OF sq] t100 s
    by (rule normalized_template_Fin [OF pos _ up]) simp
  then show ?thesis using pos by simp
qed

text \<open>
  Claim C4, as the code has it. For \<open>lambda_max\<close> in (300, 800),
  \<open>A1_proportion = 100\<close> and a non-empty wavelength array, the maximum of the
  returned curve is exactly 1, and the curve is 1 exactly at the samples where the A1
  template is largest over the array; nothing ties that sample to the one nearest
  \<open>lambda_max\<close>. For the wavelengths 400, 500, 600 and the peak 500 the call returns
  three values, and the value at 500 is exactly 1.
\<close>

theorem pure_A1_maximum:
  "(300 < lambda_max \<and> lambda_max < 800 \<and> wavelengths \<noteq> [] \<longrightarrow>
      (\<exists>curve. govardovskii_template wavelengths lambda_max 100 = Inr (wavelengths, curve)
         \<and> np_max curve = Inr (Fin 1)
         \<and> (\<forall>i < length wavelengths.
               (curve ! i = Fin 1)
               = (np_max (sensitivity_A1 wavelengths lambda_max)
                    = Inr (sensitivity_A1 wavelengths lambda_max ! i)))))
   \<and> (\<exists>lo hi. govardovskii_template [400, 500, 600] 500 100
                 = Inr ([400, 500, 600], [Fin lo, Fin 1, Fin hi]))"
  using pure_A1_curve [of lambda_max wavelengths] example_curve by blast

theorem pure_A1_maximum_witness:
  "(300 :: real) < 500 \<and> (500 :: real) < 800 \<and> [300, 650] \<noteq> ([] :: real list)
   \<and> (\<exists>curve. govardovskii_template [300, 650] 500 100 = Inr ([300, 650], curve)
         \<and> np_max curve = Inr (Fin 1)
         \<and> (\<forall>i < length [300, 650 :: real].
               (curve ! i = Fin 1)
               = (np_max (sensitivity_A1 [300, 650] 500)
                    = Inr (sensitivity_A1 [300, 650] 500 ! i))))"
  using pure_A1_maximum [of 500 "[300, 650]"] by simp

text \<open>Peak 500 with the two samples 300 and 650: the nearer sample is 650.\<close>

lemma spec_beta1_lower:
  assumes "0 \<le> t" and "t \<le> 1"
    and "((w - spec_lambda_beta_A1 lm) / spec_b_beta_A1 lm)\<^sup>2 \<le> t"
  shows "0.26 * (1 / (1 + t + t\<^sup>2)) \<le> spec_beta1 lm w"
proof -
  have "1 / (1 + t + t\<^sup>2) \<le> exp (- ((w - spec_lambda_beta_A1 lm) / spec_b_beta_A1 lm)\<^sup>2)"
    using assms by (intro exp_neg_lower) simp_all
  then show ?thesis unfolding spec_beta1_def by (intro mult_left_mono) simp_all
qed

lemma spec_beta1_upper:
  assumes "0 \<le> t"
    and "t \<le> ((w - spec_lambda_beta_A1 lm) / spec_b_beta_A1 lm)\<^sup>2"
  shows "spec_beta1 lm w \<le> 0.26 * (1 / (1 + t + t\<^sup>2 / 2))"
proof -
  have "exp (- ((w - spec_lambda_beta_A1 lm) / spec_b_beta_A1 lm)\<^sup>2) \<le> 1 / (1 + t + t\<^sup>2 / 2)"
    using assms by (intro exp_upper2) simp_all
  then show ?thesis unfolding spec_beta1_def by (intro mult_left_mono) simp_all
qed

lemma spec_S1_500_300: "0.12 \<le> spec_S1 500 300"
proof -
  have "0.26 * (1 / (1 + 0.67 + 0.67\<^sup>2)) \<le> spec_beta1 500 300"
    by (intro spec_beta1_lower)
      (simp_all add: spec_lambda_beta_A1_def spec_b_beta_A1_def power2_eq_square)
  moreover have "(0.12::real) \<le> 0.26 * (1 / (1 + 0.67 + 0.67\<^sup>2))"
    by (simp add: power2_eq_square)
  ultimately show ?thesis
    using spec_alpha1_pos [of 500 300] unfolding spec_S1_def by linarith
qed

lemma spec_S1_500_650: "spec_S1 500 650 \<le> 0.04"
proof -
  have "1 + 7.6 + 7.6\<^sup>2 / 2 \<le> exp (69.7 * (spec_a1 500 - spec_x 500 650))"
    using spec_a1_bounds(1) [of 500] by (intro exp_lower2) (simp_all add: spec_x_def)
  then have "spec_alpha1 500 650 \<le> 1 / (1 + 7.6 + 7.6\<^sup>2 / 2 + 0.674)"
    by (intro spec_alpha1_upper) (simp_all add: power2_eq_square)
  also have "\<dots> \<le> (0.03::real)" by (simp add: power2_eq_square)
  finally have a: "spec_alpha1 500 650 \<le> 0.03" .
  have "spec_beta1 500 650 \<le> 0.26 * (1 / (1 + 28 + 28\<^sup>2 / 2))"
    by (intro spec_beta1_upper)
      (simp_all add: spec_lambda_beta_A1_def spec_b_beta_A1_def power2_eq_square)
  also have "\<dots> \<le> (0.01::real)" by (simp add: power2_eq_square)
  finally show ?thesis using a unfolding spec_S1_def by linarith
qed

text \<open>
  The claim as stated fails: with peak 500 and the samples 300 and 650, the sample
  nearest the peak is 650, but the maximum 1 of the returned curve is at 300, and the
  value at 650 is below one half.
\<close>

theorem pure_A1_maximum_counterexample:
  "nearest_sample [300, 650] 500 = 650
   \<and> curve_of (govardovskii_template [300, 650] 500 100) ! 0 = Fin 1
   \<and> np_le (curve_of (govardovskii_template [300, 650] 500 100) ! 1) (Fin (1 / 2))"
proof -
  have n: "nearest_sample [300, 650] 500 = 650" by (simp add: nearest_sample_def)
  have s: "sensitivity_A1 [300, 650] 500 = map Fin [spec_S1 500 300, spec_S1 500 650]"
    by (simp add: sensitivity_A1_map S1_at_Fin beta_bandwidth_A1_def)
  have sq: "lambda_max_squares 500 = Inr ((500 - 300)\<^sup>2, 500\<^sup>2)"
    by (intro lambda_max_squares_moderate) simp
  have t100: "total_sensitivity [300, 650] 500 100 = sensitivity_A1 [300, 650] 500"
    by (rule total_sensitivity_100) simp
  have lo: "0.12 \<le> spec_S1 500 300" by (rule spec_S1_500_300)
  have hi: "spec_S1 500 650 \<le> 0.04" by (rule spec_S1_500_650)
  have pos: "0 < spec_S1 500 300" by (rule spec_S1_pos)
  have up: "\<forall>r \<in> set [spec_S1 500 300, spec_S1 500 650]. r \<le> spec_S1 500 300"
    using lo hi by simp
  have g: "govardovskii_template [300, 650] 500 100
             = Inr ([300, 650],
                    map (\<lambda>r. Fin (r / spec_S1 500 300)) [spec_S1 500 300, spec_S1 500 650])"
    unfolding govardovskii_template_normalized [OF sq] t100 s
    by (rule normalized_template_Fin [OF pos _ up]) simp
  have "spec_S1 500 650 / spec_S1 500 300 \<le> 1 / 2"
    using lo hi pos by (simp add: divide_le_eq)
  then show ?thesis using n pos by (simp add: g curve_of_def)
qed

subsection \<open>Normalization of the combined curve\<close>

text \<open>
  Claim C1. For a non-empty wavelength array and parameters for which the combined
  curve is reached (neither float power raises) and its maximum is greater than zero,
  the evaluator returns the combined curve divided, value by value, by that maximum.
  The maximum of the returned curve is exactly 1, the returned curve is 1 exactly at
  the samples where the combined curve has its maximum, and every value of it is at
  most 1, hence at most \<open>1 + eps\<close> for every \<open>eps \<ge> 0\<close>.
\<close>

theorem normalized_maximum_is_one:
  assumes "wavelengths \<noteq> []"
    and "lambda_max_squares lambda_max = Inr squares"
    and "np_max (total_sensitivity wavelengths lambda_max A1_proportion) = Inr m"
    and "np_less (Fin 0) m"
  shows "\<exists>curve. govardovskii_template wavelengths lambda_max A1_proportion
                    = Inr (wavelengths, curve)
               \<and> curve = map (\<lambda>t. np_div t m)
                           (total_sensitivity wavelengths lambda_max A1_proportion)
               \<and> np_max curve = Inr (Fin 1)
               \<and> (\<forall>i < length wavelengths.
                     (curve ! i = Fin 1)
                     = (total_sensitivity wavelengths lambda_max A1_proportion ! i = m))
               \<and> (\<forall>v \<in> set curve. np_le v (Fin 1))
               \<and> (\<forall>v \<in> set curve. \<forall>eps \<ge> 0. np_le v (Fin (1 + eps)))"
proof -
  obtain r where r: "m = Fin r" "0 < r"
    using positive_max_finite [OF assms(3,4)] by blast
  let ?total = "total_sensitivity wavelengths lambda_max A1_proportion"
  let ?curve = "map (\<lambda>t. np_div t m) ?total"
  have mx: "np_max ?total = Inr (Fin r)" using assms(3) r by simp
  have c: "?curve = normalize_by (Fin r) ?total" by (simp add: normalize_by_def r)
  have g: "govardovskii_template wavelengths lambda_max A1_proportion
             = Inr (wavelengths, ?curve)"
    using assms(3)
    by (simp add: govardovskii_template_normalized [OF assms(2)] normalized_template_def
        normalize_by_def)
  have one: "np_max ?curve = Inr (Fin 1)"
    unfolding c by (rule normalize_positive_max(1) [OF mx r(2)])
  have le1: "\<forall>v \<in> set ?curve. np_le v (Fin 1)"
    unfolding c by (rule normalize_positive_max(2) [OF mx r(2)])
  have at: "(?curve ! i = Fin 1) = (?total ! i = m)" if "i < length wavelengths" for i
  proof -
    have "i < length ?total" using that by (simp add: total_sensitivity_map)
    then show ?thesis
      unfolding c using normalize_marks_maximum [OF mx r(2)] r(1) by simp
  qed
  have "np_le v (Fin (1 + eps))" if "v \<in> set ?curve" "0 \<le> eps" for v eps
  proof -
    have "np_le v (Fin 1)" using le1 that(1) by blast
    moreover have "np_le (Fin 1) (Fin (1 + eps))" using that(2) by simp
    ultimately show ?thesis by (rule np_le_trans)
  qed
  with g one le1 at show ?thesis by blast
qed

theorem normalized_maximum_is_one_witness:
  "[400, 500, 600] \<noteq> ([] :: real list)
   \<and> lambda_max_squares 500 = Inr ((500 - 300)\<^sup>2, 500\<^sup>2)
   \<and> np_max (total_sensitivity [400, 500, 600] 500 100) = Inr (Fin (spec_S1 500 500))
   \<and> np_less (Fin 0) (Fin (spec_S1 500 500))
   \<and> (\<exists>curve. govardovskii_template [400, 500, 600] 500 100 = Inr ([400, 500, 600], curve)
         \<and> curve = map (\<lambda>t. np_div t (Fin (spec_S1 500 500)))
                     (total_sensitivity [400, 500, 600] 500 100)
         \<and> np_max curve = Inr (Fin 1)
         \<and> (\<forall>i < length [400, 500, 600 :: real].
               (curve ! i = Fin 1)
               = (total_sensitivity [400, 500, 600] 500 100 ! i = Fin (spec_S1 500 500)))
         \<and> (\<forall>v \<in> set curve. np_le v (Fin 1))
         \<and> (\<forall>v \<in> set curve. \<forall>eps \<ge> 0. np_le v (Fin (1 + eps))))"
proof -
  have h1: "[400, 500, 600] \<noteq> ([] :: real list)" by simp
  have h2: "lambda_max_squares 500 = Inr ((500 - 300)\<^sup>2, 500\<^sup>2)"
    by (intro lambda_max_squares_moderate) simp
  have t: "total_sensitivity [400, 500, 600] 500 100
             = map Fin [spec_S1 500 400, spec_S1 500 500, spec_S1 500 600]"
    by (simp add: total_sensitivity_100 sensitivity_A1_map S1_at_Fin beta_bandwidth_A1_def)
  have pk: "0.63 \<le> spec_S1 500 500" by (rule spec_S1_peak) simp
  have h3: "np_max (total_sensitivity [400, 500, 600] 500 100) = Inr (Fin (spec_S1 500 500))"
    unfolding t using pk spec_S1_500_400 spec_S1_500_600
    by (intro np_max_greatest) simp_all
  have h4: "np_less (Fin 0) (Fin (spec_S1 500 500))"
    using spec_S1_pos [of 500 500] by (simp add: np_less_def)
  show ?thesis
    using h1 h2 h3 h4 normalized_maximum_is_one [OF h1 h2 h3 h4] by blast
qed

subsection \<open>The blend before normalization\<close>

lemma total_at_blend:
  "total_at lm (100 * w) x
     = np_add (np_mul (Fin w) (total_at lm 100 x)) (np_mul (Fin (1 - w)) (total_at lm 0 x))"
proof -
  have 1: "fin_nonneg_or_nan (S1_at lm x)" by (rule S1_at_range)
  have 2: "fin_nonneg_or_nan (S2_at lm x)" by (rule S2_at_range)
  show ?thesis
    using 1 2 unfolding total_at_def
    by (cases "S1_at lm x"; cases "S2_at lm x") simp_all
qed

lemma total_sensitivity_blend:
  "total_sensitivity ws lm (100 * w)
     = manual_blend w (total_sensitivity ws lm 100) (total_sensitivity ws lm 0)"
  unfolding total_sensitivity_map manual_blend_def map2_same
  by (simp add: total_at_blend)

text \<open>
  Claim C2, as the code has it. The blend is linear before the normalization: the
  combined curve at proportion \<open>100 w\<close> is, value by value, \<open>w\<close> times the combined
  curve at proportion 100 plus \<open>1 - w\<close> times the combined curve at proportion 0, and
  the curve returned at \<open>100 w\<close> is that blend divided by its own maximum (where a
  float power raises, no curve is returned at any proportion). Each returned curve is
  divided by a maximum of its own, so the returned curves themselves do not blend
  linearly.
\<close>

theorem blend_linearity:
  "total_sensitivity wavelengths lambda_max (100 * w)
     = manual_blend w (total_sensitivity wavelengths lambda_max 100)
         (total_sensitivity wavelengths lambda_max 0)
   \<and> govardovskii_template wavelengths lambda_max (100 * w)
       = (case lambda_max_squares lambda_max of
            Inl e \<Rightarrow> Inl e
          | Inr _ \<Rightarrow>
              normalized_template wavelengths
                (manual_blend w (total_sensitivity wavelengths lambda_max 100)
                   (total_sensitivity wavelengths lambda_max 0)))"
proof (cases "lambda_max_squares lambda_max")
  case (Inl e)
  then show ?thesis
    by (simp add: govardovskii_template_raises total_sensitivity_blend)
next
  case (Inr sq)
  then show ?thesis
    by (simp add: govardovskii_template_normalized [OF Inr] total_sensitivity_blend)
qed

subsection \<open>Bounds on the A2 template\<close>

lemma real_alpha2_upper:
  assumes "0 < L"
    and "L \<le> exp (real_A2_peak lm * (real_a2 lm - lm / w))
         \<or> L \<le> exp (- 10.37 * (1.1123 - lm / w))"
  shows "real_alpha2 lm w \<le> 1 / (L + 0.5343)"
proof -
  let ?e1 = "exp (real_A2_peak lm * (real_a2 lm - lm / w))"
  let ?e2 = "exp (20.85 * (0.9101 - lm / w))"
  let ?e3 = "exp (- 10.37 * (1.1123 - lm / w))"
  have "0 < ?e1" "0 < ?e2" "0 < ?e3" by simp_all
  then have le: "L + 0.5343 \<le> ?e1 + ?e2 + ?e3 + 0.5343" using assms(2) by linarith
  have "1 / (?e1 + ?e2 + ?e3 + 0.5343) \<le> 1 / (L + 0.5343)"
    using assms(1) le by (intro divide_left_mono) (auto intro: mult_pos_pos)
  then show ?thesis unfolding real_alpha2_def .
qed

lemma real_alpha2_pos: "0 < real_alpha2 lm w"
  unfolding real_alpha2_def
  using exp_sum_pos [of "0.5343" "real_A2_peak lm * (real_a2 lm - lm / w)"
      "20.85 * (0.9101 - lm / w)" "- 10.37 * (1.1123 - lm / w)"] by simp

lemma real_beta2_le: "real_beta2 lm w \<le> 0.26"
proof -
  have "exp (- ((w - lambda_beta_A2 lm) / beta_bandwidth_A2 lm)\<^sup>2) \<le> 1" by simp
  then show ?thesis unfolding real_beta2_def by simp
qed

lemma real_beta2_lower:
  assumes "0 \<le> t" and "t \<le> 1"
    and "((w - lambda_beta_A2 lm) / beta_bandwidth_A2 lm)\<^sup>2 \<le> t"
  shows "0.26 * (1 / (1 + t + t\<^sup>2)) \<le> real_beta2 lm w"
proof -
  have "1 / (1 + t + t\<^sup>2) \<le> exp (- ((w - lambda_beta_A2 lm) / beta_bandwidth_A2 lm)\<^sup>2)"
    using assms by (intro exp_neg_lower) simp_all
  then show ?thesis unfolding real_beta2_def by (intro mult_left_mono) simp_all
qed

lemma real_beta2_upper:
  assumes "0 \<le> t"
    and "t \<le> ((w - lambda_beta_A2 lm) / beta_bandwidth_A2 lm)\<^sup>2"
  shows "real_beta2 lm w \<le> 0.26 * (1 / (1 + t + t\<^sup>2 / 2))"
proof -
  have "exp (- ((w - lambda_beta_A2 lm) / beta_bandwidth_A2 lm)\<^sup>2) \<le> 1 / (1 + t + t\<^sup>2 / 2)"
    using assms by (intro exp_upper2) simp_all
  then show ?thesis unfolding real_beta2_def by (intro mult_left_mono) simp_all
qed

text \<open>Peak 750 with the two samples 750 and 300.\<close>

lemma exp_208: "7.5 \<le> exp u" if "2.08 \<le> u" for u :: real
proof -
  have "(1 + 0.52 + 0.52\<^sup>2 / 2) ^ 4 \<le> exp u"
    using that by (intro exp_lower_pow) simp_all
  moreover have "(7.5::real) \<le> (1 + 0.52 + 0.52\<^sup>2 / 2) ^ 4"
    by (simp add: power2_eq_square power4_eq_xxxx)
  ultimately show ?thesis by linarith
qed

lemma a2_750: "1.076 \<le> real_a2 750"
proof -
  have "7.5 \<le> exp ((750 - 665) / 40.7 :: real)" by (rule exp_208) simp
  then have "0.0268 * 7.5 \<le> 0.0268 * exp ((750 - 665) / 40.7 :: real)"
    by (intro mult_left_mono) simp_all
  then show ?thesis unfolding real_a2_def by simp
qed

lemma A2_peak_750: "76 \<le> real_A2_peak 750"
proof -
  have "7.5 \<le> exp ((750 - 625) / 54.2 :: real)" by (rule exp_208) simp
  then have "1.834 * 7.5 \<le> 1.834 * exp ((750 - 625) / 54.2 :: real)"
    by (intro mult_left_mono) simp_all
  then show ?thesis unfolding real_A2_peak_def by simp
qed

lemma real_S2_750_750: "real_S2 750 750 \<le> 0.035"
proof -
  have "76 * 0.076 \<le> real_A2_peak 750 * (real_a2 750 - 750 / 750)"
    using A2_peak_750 a2_750 by (intro mult_mono) simp_all
  then have "real 2 * 2.85 \<le> real_A2_peak 750 * (real_a2 750 - 750 / 750)" by simp
  then have "(1 + 2.85 + 2.85\<^sup>2 / 2) ^ 2 \<le> exp (real_A2_peak 750 * (real_a2 750 - 750 / 750))"
    by (intro exp_lower_pow) simp_all
  moreover have "(62::real) \<le> (1 + 2.85 + 2.85\<^sup>2 / 2) ^ 2" by (simp add: power2_eq_square)
  ultimately have "62 \<le> exp (real_A2_peak 750 * (real_a2 750 - 750 / 750))" by linarith
  then have "real_alpha2 750 750 \<le> 1 / (62 + 0.5343)"
    by (intro real_alpha2_upper) simp_all
  also have "\<dots> \<le> (0.016::real)" by simp
  finally have a: "real_alpha2 750 750 \<le> 0.016" .
  have "real_beta2 750 750 \<le> 0.26 * (1 / (1 + 4.3 + 4.3\<^sup>2 / 2))"
    by (intro real_beta2_upper)
      (simp_all add: lambda_beta_A2_def beta_bandwidth_A2_def power2_eq_square)
  also have "\<dots> \<le> (0.018::real)" by (simp add: power2_eq_square)
  finally show ?thesis using a unfolding real_S2_def by simp
qed

lemma real_S2_750_300: "0.11 \<le> real_S2 750 300" "real_S2 750 300 \<le> 0.33"
proof -
  have "0.26 * (1 / (1 + 0.75 + 0.75\<^sup>2)) \<le> real_beta2 750 300"
    by (intro real_beta2_lower)
      (simp_all add: lambda_beta_A2_def beta_bandwidth_A2_def power2_eq_square)
  moreover have "(0.11::real) \<le> 0.26 * (1 / (1 + 0.75 + 0.75\<^sup>2))"
    by (simp add: power2_eq_square)
  ultimately show "0.11 \<le> real_S2 750 300"
    using real_alpha2_pos [of 750 300] unfolding real_S2_def by linarith
  have "1 + 14.3 \<le> exp (- 10.37 * (1.1123 - 750 / 300 :: real))"
    by (intro exp_lower1) simp
  then have "real_alpha2 750 300 \<le> 1 / (1 + 14.3 + 0.5343)"
    by (intro real_alpha2_upper) simp_all
  also have "\<dots> \<le> (0.07::real)" by simp
  finally show "real_S2 750 300 \<le> 0.33"
    using real_beta2_le [of 750 300] unfolding real_S2_def by linarith
qed

lemma spec_S1_750_300: "spec_S1 750 300 \<le> 0.13"
proof -
  have "1 + 20.8 \<le> exp (- 14.9 * (1.104 - spec_x 750 300))"
    by (intro exp_lower1) (simp add: spec_x_def)
  then have "spec_alpha1 750 300 \<le> 1 / (1 + 20.8 + 0.674)"
    by (intro spec_alpha1_upper) simp_all
  also have "\<dots> \<le> (0.05::real)" by simp
  finally have a: "spec_alpha1 750 300 \<le> 0.05" .
  have "spec_beta1 750 300 \<le> 0.26 * (1 / (1 + 1.4 + 1.4\<^sup>2 / 2))"
    by (intro spec_beta1_upper)
      (simp_all add: spec_lambda_beta_A1_def spec_b_beta_A1_def power2_eq_square)
  also have "\<dots> \<le> (0.08::real)" by (simp add: power2_eq_square)
  finally show ?thesis using a unfolding spec_S1_def by linarith
qed

text \<open>
  The claim as stated fails at peak 750, samples 750 and 300, weight one half: the
  curve returned at proportion 50 is 1 at the first sample, while the blend of the
  curves returned at 100 and at 0 is at most two thirds there. The A1 template is
  largest at 750 and the A2 template at 300, so the two returned curves are divided by
  values taken at different samples.
\<close>

theorem blend_linearity_counterexample:
  "curve_of (govardovskii_template [750, 300] 750 (100 * (1 / 2))) ! 0 = Fin 1
   \<and> np_le (manual_blend (1 / 2)
              (curve_of (govardovskii_template [750, 300] 750 100))
              (curve_of (govardovskii_template [750, 300] 750 0)) ! 0)
        (Fin (2 / 3))"
proof -
  define s1a s1b s2a s2b where "s1a = spec_S1 750 750" and "s1b = spec_S1 750 300"
    and "s2a = real_S2 750 750" and "s2b = real_S2 750 300"
  have b: "0.63 \<le> s1a" "s1b \<le> 0.13" "s2a \<le> 0.035" "0.11 \<le> s2b" "s2b \<le> 0.33"
    unfolding s1a_def s1b_def s2a_def s2b_def
    using spec_S1_peak [of 750] spec_S1_750_300 real_S2_750_750 real_S2_750_300 by simp_all
  have p: "0 < s1a" "0 < s1b" "0 < s2a" "0 < s2b"
    unfolding s1a_def s1b_def s2a_def s2b_def by (simp_all add: spec_S1_pos real_S2_pos)
  have bw: "beta_bandwidth_A1 750 \<noteq> 0" by (simp add: beta_bandwidth_A1_def)
  have S1: "S1_at 750 750 = Fin s1a" "S1_at 750 300 = Fin s1b"
    unfolding s1a_def s1b_def using bw by (simp_all add: S1_at_Fin)
  have S2: "S2_at 750 750 = Fin s2a" "S2_at 750 300 = Fin s2b"
    unfolding s2a_def s2b_def by (simp_all add: S2_at_Fin)
  have sq: "lambda_max_squares 750 = Inr ((750 - 300)\<^sup>2, 750\<^sup>2)"
    by (intro lambda_max_squares_moderate) simp
  have t100: "total_sensitivity [750, 300] 750 100 = map Fin [s1a, s1b]"
    by (simp add: total_sensitivity_map total_at_100 S1)
  have t0: "total_sensitivity [750, 300] 750 0 = map Fin [s2a, s2b]"
    by (simp add: total_sensitivity_map total_at_0_bandwidth [OF bw] S2)
  have t50: "total_sensitivity [750, 300] 750 50
               = map Fin [s1a / 2 + s2a / 2, s1b / 2 + s2b / 2]"
    by (simp add: total_sensitivity_map total_at_def S1 S2)
  have g100: "govardovskii_template [750, 300] 750 100
                = Inr ([750, 300], map (\<lambda>r. Fin (r / s1a)) [s1a, s1b])"
    unfolding govardovskii_template_normalized [OF sq] t100
    using b p by (intro normalized_template_Fin) simp_all
  have g0: "govardovskii_template [750, 300] 750 0
              = Inr ([750, 300], map (\<lambda>r. Fin (r / s2b)) [s2a, s2b])"
    unfolding govardovskii_template_normalized [OF sq] t0
    using b p by (intro normalized_template_Fin) simp_all
  have g50: "govardovskii_template [750, 300] 750 50
               = Inr ([750, 300],
                      map (\<lambda>r. Fin (r / (s1a / 2 + s2a / 2)))
                        [s1a / 2 + s2a / 2, s1b / 2 + s2b / 2])"
    unfolding govardovskii_template_normalized [OF sq] t50
    using b p by (intro normalized_template_Fin) simp_all
  have first: "curve_of (govardovskii_template [750, 300] 750 (100 * (1 / 2))) ! 0 = Fin 1"
    using p by (simp add: g50 curve_of_def)
  define q where "q = s2a / s2b"
  have "q \<le> 1 / 3" unfolding q_def using b p by (simp add: divide_le_eq)
  then have "1 / 2 + q / 2 \<le> 2 / 3" by linarith
  then have "1 / 2 + s2a / s2b / 2 \<le> 2 / 3" unfolding q_def .
  then have "np_le (manual_blend (1 / 2)
                      (curve_of (govardovskii_template [750, 300] 750 100))
                      (curve_of (govardovskii_template [750, 300] 750 0)) ! 0)
               (Fin (2 / 3))"
    using p by (simp add: g100 g0 curve_of_def manual_blend_def)
  with first show ?thesis by simp
qed

end
